theory Spec2Isabelle
  imports Main "HOL-Library.Word"
begin

unbundle bit_operations_syntax

section \<open>Python values used by panda.py\<close>

text \<open>
  A Python \<open>str\<close> is a sequence of Unicode code points, so a character is a natural
  number and \<open>len\<close> counts code points.  \<open>U\<close> turns an ASCII literal into such a
  string.  A Python \<open>float\<close> is an IEEE-754 binary64 value, kept as its bit pattern.
\<close>

type_synonym pychar = nat
type_synonym pystr = "pychar list"
type_synonym pyfloat = "64 word"

definition U :: "string \<Rightarrow> pystr" where
  "U s = map of_char s"

text \<open>A number handed to the class where the source accepts both \<open>int\<close> and \<open>float\<close>.\<close>

datatype pynum = NInt int | NFloat pyfloat

text \<open>The values \<open>rated_power\<close> and \<open>nominal_voltage\<close> hold: \<open>from_txt\<close> passes a
  \<open>str\<close> and an \<open>int\<close> where the signature announces a \<open>float\<close>.\<close>

datatype pyval = PStr pystr | PInt int | PFloat pyfloat

text \<open>
  Exceptions as values.  \<open>ValueError\<close> carries the message of a \<open>raise\<close> written in
  panda.py; the other constructors are the exceptions of the built-ins: tuple unpacking
  (\<open>UnpackError expected got\<close>, a \<open>ValueError\<close> in Python), a missing dictionary key,
  \<open>int()\<close> and \<open>float()\<close> on a malformed literal (both \<open>ValueError\<close> in Python),
  iterating \<open>None\<close>, and writing text that the file's encoding cannot represent.
\<close>

datatype py_error =
    ValueError pystr
  | UnpackError nat nat
  | KeyError "pystr option"
  | IntLiteralError pystr
  | FloatLiteralError pystr
  | TypeError
  | UnicodeEncodeError

definition bind :: "py_error + 'a \<Rightarrow> ('a \<Rightarrow> py_error + 'b) \<Rightarrow> py_error + 'b" where
  "bind m f = (case m of Inl e \<Rightarrow> Inl e | Inr x \<Rightarrow> f x)"

subsection \<open>Character classes (Unicode 14.0, as CPython 3.11 ships it)\<close>

definition in_ranges :: "(nat \<times> nat) list \<Rightarrow> pychar \<Rightarrow> bool" where
  "in_ranges rs c = list_ex (\<lambda>r. fst r \<le> c \<and> c \<le> snd r) rs"

definition isspace_ranges :: "(nat \<times> nat) list" where
  "isspace_ranges =
  [(0x9, 0xD), (0x1C, 0x20), (0x85, 0x85), (0xA0, 0xA0), (0x1680, 0x1680),
   (0x2000, 0x200A), (0x2028, 0x2029), (0x202F, 0x202F), (0x205F, 0x205F),
   (0x3000, 0x3000)]"

definition py_isspace_char :: "pychar \<Rightarrow> bool" where
  "py_isspace_char c = in_ranges isspace_ranges c"

definition isdigit_ranges :: "(nat \<times> nat) list" where
  "isdigit_ranges =
  [(0x30, 0x39), (0xB2, 0xB3), (0xB9, 0xB9), (0x660, 0x669), (0x6F0, 0x6F9),
   (0x7C0, 0x7C9), (0x966, 0x96F), (0x9E6, 0x9EF), (0xA66, 0xA6F), (0xAE6, 0xAEF),
   (0xB66, 0xB6F), (0xBE6, 0xBEF), (0xC66, 0xC6F), (0xCE6, 0xCEF), (0xD66, 0xD6F),
   (0xDE6, 0xDEF), (0xE50, 0xE59), (0xED0, 0xED9), (0xF20, 0xF29), (0x1040, 0x1049),
   (0x1090, 0x1099), (0x1369, 0x1371), (0x17E0, 0x17E9), (0x1810, 0x1819), (0x1946, 0x194F),
   (0x19D0, 0x19DA), (0x1A80, 0x1A89), (0x1A90, 0x1A99), (0x1B50, 0x1B59), (0x1BB0, 0x1BB9),
   (0x1C40, 0x1C49), (0x1C50, 0x1C59), (0x2070, 0x2070), (0x2074, 0x2079), (0x2080, 0x2089),
   (0x2460, 0x2468), (0x2474, 0x247C), (0x2488, 0x2490), (0x24EA, 0x24EA), (0x24F5, 0x24FD),
   (0x24FF, 0x24FF), (0x2776, 0x277E), (0x2780, 0x2788), (0x278A, 0x2792), (0xA620, 0xA629),
   (0xA8D0, 0xA8D9), (0xA900, 0xA909), (0xA9D0, 0xA9D9), (0xA9F0, 0xA9F9), (0xAA50, 0xAA59),
   (0xABF0, 0xABF9), (0xFF10, 0xFF19), (0x104A0, 0x104A9), (0x10A40, 0x10A43), (0x10D30, 0x10D39),
   (0x10E60, 0x10E68), (0x11052, 0x1105A), (0x11066, 0x1106F), (0x110F0, 0x110F9), (0x11136, 0x1113F),
   (0x111D0, 0x111D9), (0x112F0, 0x112F9), (0x11450, 0x11459), (0x114D0, 0x114D9), (0x11650, 0x11659),
   (0x116C0, 0x116C9), (0x11730, 0x11739), (0x118E0, 0x118E9), (0x11950, 0x11959), (0x11C50, 0x11C59),
   (0x11D50, 0x11D59), (0x11DA0, 0x11DA9), (0x16A60, 0x16A69), (0x16AC0, 0x16AC9), (0x16B50, 0x16B59),
   (0x1D7CE, 0x1D7FF), (0x1E140, 0x1E149), (0x1E2F0, 0x1E2F9), (0x1E950, 0x1E959), (0x1F100, 0x1F10A),
   (0x1FBF0, 0x1FBF9)]"

definition py_isdigit_char :: "pychar \<Rightarrow> bool" where
  "py_isdigit_char c = in_ranges isdigit_ranges c"

text \<open>\<open>str.isdigit()\<close>: at least one character, and every character a Unicode digit.\<close>

definition py_isdigit :: "pystr \<Rightarrow> bool" where
  "py_isdigit s = (s \<noteq> [] \<and> list_all py_isdigit_char s)"

text \<open>The decimal digits (category Nd) come in runs of ten, \<open>0\<close> to \<open>9\<close>; these are
  the first code points of the runs.\<close>

definition decimal_starts :: "nat list" where
  "decimal_starts =
  [0x30, 0x660, 0x6F0, 0x7C0, 0x966, 0x9E6, 0xA66, 0xAE6,
   0xB66, 0xBE6, 0xC66, 0xCE6, 0xD66, 0xDE6, 0xE50, 0xED0,
   0xF20, 0x1040, 0x1090, 0x17E0, 0x1810, 0x1946, 0x19D0, 0x1A80,
   0x1A90, 0x1B50, 0x1BB0, 0x1C40, 0x1C50, 0xA620, 0xA8D0, 0xA900,
   0xA9D0, 0xA9F0, 0xAA50, 0xABF0, 0xFF10, 0x104A0, 0x10D30, 0x11066,
   0x110F0, 0x11136, 0x111D0, 0x112F0, 0x11450, 0x114D0, 0x11650, 0x116C0,
   0x11730, 0x118E0, 0x11950, 0x11C50, 0x11D50, 0x11DA0, 0x16A60, 0x16AC0,
   0x16B50, 0x1D7CE, 0x1D7D8, 0x1D7E2, 0x1D7EC, 0x1D7F6, 0x1E140, 0x1E2F0,
   0x1E950, 0x1FBF0]"

definition decimal_value :: "pychar \<Rightarrow> nat option" where
  "decimal_value c =
     (case find (\<lambda>lo. lo \<le> c \<and> c < lo + 10) decimal_starts of
        None \<Rightarrow> None
      | Some lo \<Rightarrow> Some (c - lo))"

subsection \<open>String methods\<close>

text \<open>\<open>s.strip()\<close> and \<open>s.strip(chars)\<close>.\<close>

definition py_strip :: "pystr \<Rightarrow> pystr" where
  "py_strip s = rev (dropWhile py_isspace_char (rev (dropWhile py_isspace_char s)))"

definition py_strip_chars :: "pystr \<Rightarrow> pystr \<Rightarrow> pystr" where
  "py_strip_chars chars s =
     rev (dropWhile (\<lambda>c. c \<in> set chars) (rev (dropWhile (\<lambda>c. c \<in> set chars) s)))"

text \<open>\<open>s.endswith(c)\<close> for a one-character suffix.\<close>

definition py_endswith :: "pystr \<Rightarrow> pychar \<Rightarrow> bool" where
  "py_endswith s c = (s \<noteq> [] \<and> last s = c)"

text \<open>\<open>s.split(sep)\<close> for a one-character separator: never an empty list.\<close>

fun py_split :: "pychar \<Rightarrow> pystr \<Rightarrow> pystr list" where
  "py_split sep [] = [[]]"
| "py_split sep (c # cs) =
     (let ps = py_split sep cs
      in if c = sep then [] # ps else (c # hd ps) # tl ps)"

text \<open>\<open>sep.join(pieces)\<close>.\<close>

fun py_join :: "pystr \<Rightarrow> pystr list \<Rightarrow> pystr" where
  "py_join sep [] = []"
| "py_join sep [p] = p"
| "py_join sep (p # q # ps) = p @ sep @ py_join sep (q # ps)"

subsection \<open>\<open>str(int)\<close> and \<open>int(str)\<close>\<close>

fun str_nat :: "nat \<Rightarrow> pystr" where
  "str_nat n = (if n < 10 then [48 + n] else str_nat (n div 10) @ [48 + n mod 10])"

declare str_nat.simps [simp del]

definition str_int :: "int \<Rightarrow> pystr" where
  "str_int i = (if i < 0 then 45 # str_nat (nat (- i)) else str_nat (nat i))"

text \<open>
  The interpreter's limit on the number of digits of such a conversion (4300 by default
  from CPython 3.11 on) is not modelled: integers are unbounded in both directions.

  \<open>int(s)\<close> in base 10.  Surrounding whitespace is skipped (the ASCII blanks and every
  non-ASCII Unicode space), one sign is allowed, the digits may come from any script and
  single underscores may separate them.
\<close>

definition int_space :: "pychar \<Rightarrow> bool" where
  "int_space c = (if c < 128 then (9 \<le> c \<and> c \<le> 13) \<or> c = 32 else py_isspace_char c)"

fun digits_value :: "nat \<Rightarrow> pystr \<Rightarrow> nat option" where
  "digits_value acc [] = Some acc"
| "digits_value acc (c # cs) =
     (case decimal_value c of
        None \<Rightarrow> None
      | Some d \<Rightarrow> digits_value (10 * acc + d) cs)"

definition int_digits :: "pystr \<Rightarrow> nat option" where
  "int_digits s =
     (let groups = py_split 95 s
      in if list_ex (\<lambda>g. g = []) groups then None else digits_value 0 (concat groups))"

definition py_int :: "pystr \<Rightarrow> py_error + int" where
  "py_int s =
     (let t = rev (dropWhile int_space (rev (dropWhile int_space s)));
          r = (case t of
                 [] \<Rightarrow> None
               | c # cs \<Rightarrow>
                   if c = 45 then map_option (\<lambda>n. - int n) (int_digits cs)
                   else if c = 43 then map_option int (int_digits cs)
                   else map_option int (int_digits t))
      in case r of None \<Rightarrow> Inl (IntLiteralError s) | Some i \<Rightarrow> Inr i)"

text \<open>
  \<open>str(x)\<close> and \<open>float(s)\<close> for floats are the interpreter's decimal conversions; the
  functions below take them as the parameters \<open>fstr\<close> and \<open>fparse\<close>.
\<close>

definition py_float :: "(pystr \<Rightarrow> pyfloat option) \<Rightarrow> pystr \<Rightarrow> py_error + pyfloat" where
  "py_float fparse s = (case fparse s of None \<Rightarrow> Inl (FloatLiteralError s) | Some x \<Rightarrow> Inr x)"

definition str_num :: "(pyfloat \<Rightarrow> pystr) \<Rightarrow> pynum \<Rightarrow> pystr" where
  "str_num fstr v = (case v of NInt i \<Rightarrow> str_int i | NFloat x \<Rightarrow> fstr x)"

definition str_val :: "(pyfloat \<Rightarrow> pystr) \<Rightarrow> pyval \<Rightarrow> pystr" where
  "str_val fstr v = (case v of PStr s \<Rightarrow> s | PInt i \<Rightarrow> str_int i | PFloat x \<Rightarrow> fstr x)"

section \<open>PandaFile: construction and validation\<close>

text \<open>The class constant \<open>ALLOWED_CHARS\<close>, character by character as the source file
  (UTF-8) spells it: between \<open>@\<close> and \<open>*\<close> stand U+00E2, U+20AC and U+02DC.\<close>

definition ALLOWED_CHARS :: "pychar list" where
  "ALLOWED_CHARS =
     U ''ABCDEFGHIJKLMNOPQRSTUVWXYZabcdefghijklmnopqrstuvwxyz+-._:|<>?!$%&=()[]{}''
     @ [0x5C] @ U ''/@'' @ [0xE2, 0x20AC, 0x2DC] @ U ''*0123456789 ''"

definition MAX_LENGTHS :: "(pystr \<times> nat) list" where
  "MAX_LENGTHS =
     [(U ''lab_id'', 4), (U ''user_id'', 4), (U ''category'', 1), (U ''sub_category'', 2),
      (U ''sell_year'', 4), (U ''unique_id'', 24), (U ''manufacturer'', 64),
      (U ''product_code'', 64), (U ''sell_country'', 2), (U ''description'', 500)]"

definition validate_property :: "pystr \<Rightarrow> pystr \<Rightarrow> bool \<Rightarrow> py_error + pystr" where
  "validate_property property_name val digits_only =
     (if digits_only \<and> \<not> py_isdigit val then
        Inl (ValueError (property_name @ U '' must contain only digits.''))
      else if list_ex (\<lambda>c. c \<notin> set ALLOWED_CHARS) val then
        Inl (ValueError (U ''Disallowed characters found in '' @ property_name @ U ''.''))
      else
        (case map_of MAX_LENGTHS property_name of
           None \<Rightarrow> Inl (KeyError (Some property_name))
         | Some n \<Rightarrow>
             if length val > n then
               Inl (ValueError (property_name @ U '' exceeds maximum length of ''
                                @ str_nat n @ U '' characters.''))
             else Inr val))"

record PandaFile =
  lab_id :: pystr
  user_id :: pystr
  category :: pystr
  sub_category :: pystr
  unique_id :: pystr
  manufacturer :: pystr
  product_code :: pystr
  sell_country :: pystr
  sell_year :: pystr
  rated_power :: pyval
  nominal_frequency :: pyfloat
  nominal_voltage :: pyval
  supply_source :: int
  description :: pystr
  current_harmonics :: pystr
  voltage_harmonics :: pystr
  sample_rate :: "int option"
  current_data :: "pyfloat list option"
  voltage_data :: "pyfloat list option"

text \<open>\<open>__init__\<close>: ten validations in the order of the source, the other nine arguments
  stored as given.\<close>

definition init ::
  "pystr \<Rightarrow> pystr \<Rightarrow> int \<Rightarrow> int \<Rightarrow> pystr \<Rightarrow> pystr \<Rightarrow> pystr \<Rightarrow> pystr \<Rightarrow> pystr \<Rightarrow>
   pyval \<Rightarrow> pyfloat \<Rightarrow> pyval \<Rightarrow> int \<Rightarrow> pystr \<Rightarrow> pystr \<Rightarrow> pystr \<Rightarrow>
   int option \<Rightarrow> pyfloat list option \<Rightarrow> pyfloat list option \<Rightarrow> py_error + PandaFile" where
  "init lab user cat sub uid manu pcode country year rpower freq volt src descr ch vh sr cd vd =
     bind (validate_property (U ''lab_id'') lab True) (\<lambda>v1.
     bind (validate_property (U ''user_id'') user True) (\<lambda>v2.
     bind (validate_property (U ''category'') (str_int cat) True) (\<lambda>v3.
     bind (validate_property (U ''sub_category'') (str_int sub) True) (\<lambda>v4.
     bind (validate_property (U ''unique_id'') uid False) (\<lambda>v5.
     bind (validate_property (U ''manufacturer'') manu False) (\<lambda>v6.
     bind (validate_property (U ''product_code'') pcode False) (\<lambda>v7.
     bind (validate_property (U ''sell_country'') country False) (\<lambda>v8.
     bind (validate_property (U ''sell_year'') year True) (\<lambda>v9.
     bind (validate_property (U ''description'') descr False) (\<lambda>v10.
     Inr \<lparr> lab_id = v1, user_id = v2, category = v3, sub_category = v4, unique_id = v5,
           manufacturer = v6, product_code = v7, sell_country = v8, sell_year = v9,
           rated_power = rpower, nominal_frequency = freq, nominal_voltage = volt,
           supply_source = src, description = v10, current_harmonics = ch,
           voltage_harmonics = vh, sample_rate = sr, current_data = cd,
           voltage_data = vd \<rparr>))))))))))"

section \<open>The text format\<close>

text \<open>One \<open>file.write(f"Key = {value};\n")\<close>.\<close>

definition kv_line :: "string \<Rightarrow> pystr \<Rightarrow> pystr" where
  "kv_line k v = U k @ U '' = '' @ v @ U '';'' @ [10]"

definition header_lines :: "(pyfloat \<Rightarrow> pystr) \<Rightarrow> PandaFile \<Rightarrow> pystr list" where
  "header_lines fstr r =
     [U ''TUDHDB_TXT_v01'' @ [10],
      U ''[User Detail]'' @ [10],
      kv_line ''Lab_ID'' (lab_id r),
      kv_line ''User_ID'' (user_id r),
      U ''[EUT]'' @ [10],
      kv_line ''Category'' (category r),
      kv_line ''Sub_Category'' (sub_category r),
      kv_line ''Unique_ID'' (unique_id r),
      kv_line ''Manufacturer'' (manufacturer r),
      kv_line ''Product_code'' (product_code r),
      kv_line ''Sell_Country'' (sell_country r),
      kv_line ''Sell_Year'' (sell_year r),
      kv_line ''Rated_Power'' (str_val fstr (rated_power r)),
      kv_line ''Nominal_Frequency'' (fstr (nominal_frequency r)),
      kv_line ''Nominal_Voltage'' (str_val fstr (nominal_voltage r)),
      kv_line ''Supply_Source'' (str_int (supply_source r)),
      kv_line ''Description'' (description r),
      U ''[Harmonics]'' @ [10],
      kv_line ''Current_Harmonics'' (current_harmonics r),
      kv_line ''Voltage_Harmonics'' (voltage_harmonics r)]"

text \<open>
  \<open>open(file_path, 'w')\<close> encodes what is written; the encoding is taken to be UTF-8, the
  default where the class is run.  UTF-8 represents every code point but the surrogates
  U+D800 to U+DFFF, and a \<open>write\<close> of text holding one raises \<open>UnicodeEncodeError\<close>.
  \<open>file_write file s\<close> is the text of the file after \<open>file.write(s)\<close>.
\<close>

definition encodable :: "pychar \<Rightarrow> bool" where
  "encodable c = (c < 0xD800 \<or> (0xDFFF < c \<and> c \<le> 0x10FFFF))"

definition file_write :: "pystr \<Rightarrow> pystr \<Rightarrow> py_error + pystr" where
  "file_write file s =
     (if list_all encodable s then Inr (file @ s) else Inl UnicodeEncodeError)"

fun write_lines :: "pystr \<Rightarrow> pystr list \<Rightarrow> py_error + pystr" where
  "write_lines file [] = Inr file"
| "write_lines file (l # ls) = bind (file_write file l) (\<lambda>file'. write_lines file' ls)"

text \<open>
  \<open>to_txt\<close> returns the text written to the file, one \<open>write\<close> after the other.  With
  \<open>sample_rate\<close> set and a data list missing, \<open>map(str, None)\<close> raises \<open>TypeError\<close>
  when the line of that list is formatted, after the lines before it were written.
\<close>

definition to_txt :: "(pyfloat \<Rightarrow> pystr) \<Rightarrow> PandaFile \<Rightarrow> py_error + pystr" where
  "to_txt fstr r =
     bind (write_lines [] (header_lines fstr r)) (\<lambda>f1.
       case sample_rate r of
         None \<Rightarrow> Inr f1
       | Some sr \<Rightarrow>
           bind (file_write f1 (U ''[Waveforms]'' @ [10])) (\<lambda>f2.
           bind (file_write f2 (kv_line ''Sampling_Rate'' (str_int sr))) (\<lambda>f3.
             case current_data r of
               None \<Rightarrow> Inl TypeError
             | Some cd \<Rightarrow>
                 bind (file_write f3 (kv_line ''Current_Data'' (py_join [44] (map fstr cd))))
                   (\<lambda>f4.
                   case voltage_data r of
                     None \<Rightarrow> Inl TypeError
                   | Some vd \<Rightarrow>
                       file_write f4
                         (kv_line ''Voltage_Data'' (py_join [44] (map fstr vd)))))))"

text \<open>
  Reading: \<open>open(path, 'r')\<close> translates \<open>\r\n\<close> and \<open>\r\<close> to \<open>\n\<close>, and
  \<open>readlines()\<close> cuts after every \<open>\n\<close>, keeping it.
\<close>

fun universal_newlines :: "pystr \<Rightarrow> pystr" where
  "universal_newlines [] = []"
| "universal_newlines [c] = (if c = 13 then [10] else [c])"
| "universal_newlines (c # d # cs) =
     (if c = 13 then (if d = 10 then 10 # universal_newlines cs
                      else 10 # universal_newlines (d # cs))
      else c # universal_newlines (d # cs))"

fun lines_keepends :: "pystr \<Rightarrow> pystr \<Rightarrow> pystr list" where
  "lines_keepends acc [] = (if acc = [] then [] else [rev acc])"
| "lines_keepends acc (c # cs) =
     (if c = 10 then rev (c # acc) # lines_keepends [] cs
      else lines_keepends (c # acc) cs)"

definition py_readlines :: "pystr \<Rightarrow> pystr list" where
  "py_readlines text = lines_keepends [] (universal_newlines text)"

type_synonym section_dict = "pystr \<rightharpoonup> pystr"
type_synonym data_dict = "pystr \<rightharpoonup> section_dict"

text \<open>The body of the \<open>for line in lines\<close> loop, on the pair \<open>(data, section)\<close>;
  \<open>section\<close> starts as \<open>None\<close>.\<close>

definition scan_line ::
  "data_dict \<times> pystr option \<Rightarrow> pystr \<Rightarrow> py_error + data_dict \<times> pystr option" where
  "scan_line st line =
     (case st of (data, section) \<Rightarrow>
        if py_endswith (py_strip line) 93 then
          (let s = py_strip_chars (U ''[]'') (py_strip line)
           in Inr (data(s \<mapsto> Map.empty), Some s))
        else if 61 \<in> set line then
          (case py_split 61 line of
             [key, val] \<Rightarrow>
               (case section of
                  None \<Rightarrow> Inl (KeyError None)
                | Some s \<Rightarrow>
                    (case data s of
                       None \<Rightarrow> Inl (KeyError (Some s))
                     | Some d \<Rightarrow>
                         Inr (data(s \<mapsto> d(py_strip key \<mapsto> py_strip (hd (py_split 59 val)))),
                              section)))
           | pieces \<Rightarrow> Inl (UnpackError 2 (length pieces)))
        else Inr (data, section))"

fun scan_lines ::
  "data_dict \<times> pystr option \<Rightarrow> pystr list \<Rightarrow> py_error + data_dict \<times> pystr option" where
  "scan_lines st [] = Inr st"
| "scan_lines st (l # ls) = bind (scan_line st l) (\<lambda>st'. scan_lines st' ls)"

text \<open>\<open>data[sec][key]\<close>.\<close>

definition lookup2 :: "data_dict \<Rightarrow> string \<Rightarrow> string \<Rightarrow> py_error + pystr" where
  "lookup2 data sec key =
     (case data (U sec) of
        None \<Rightarrow> Inl (KeyError (Some (U sec)))
      | Some d \<Rightarrow>
          (case d (U key) of
             None \<Rightarrow> Inl (KeyError (Some (U key)))
           | Some v \<Rightarrow> Inr v))"

text \<open>\<open>[float(i) for i in s.split(',')]\<close>: the first bad piece raises.\<close>

fun float_list :: "(pystr \<Rightarrow> pyfloat option) \<Rightarrow> pystr list \<Rightarrow> py_error + pyfloat list" where
  "float_list fparse [] = Inr []"
| "float_list fparse (p # ps) =
     bind (py_float fparse p) (\<lambda>x. bind (float_list fparse ps) (\<lambda>xs. Inr (x # xs)))"

text \<open>The three conditional arguments \<open>... if 'Waveforms' in data else None\<close>.\<close>

definition waveform_sample_rate :: "data_dict \<Rightarrow> py_error + int option" where
  "waveform_sample_rate data =
     (if data (U ''Waveforms'') \<noteq> None then
        bind (bind (lookup2 data ''Waveforms'' ''Sampling_Rate'') py_int) (\<lambda>n. Inr (Some n))
      else Inr None)"

definition waveform_data ::
  "(pystr \<Rightarrow> pyfloat option) \<Rightarrow> data_dict \<Rightarrow> string \<Rightarrow> py_error + pyfloat list option" where
  "waveform_data fparse data key =
     (if data (U ''Waveforms'') \<noteq> None then
        bind (lookup2 data ''Waveforms'' key) (\<lambda>s.
        bind (float_list fparse (py_split 44 s)) (\<lambda>xs. Inr (Some xs)))
      else Inr None)"

text \<open>The call \<open>cls(...)\<close> at the end of \<open>from_txt\<close>: the keyword arguments are
  evaluated from first to last, then \<open>__init__\<close> runs.\<close>

definition build :: "(pystr \<Rightarrow> pyfloat option) \<Rightarrow> data_dict \<Rightarrow> py_error + PandaFile" where
  "build fparse data =
     bind (lookup2 data ''User Detail'' ''Lab_ID'') (\<lambda>a1.
     bind (lookup2 data ''User Detail'' ''User_ID'') (\<lambda>a2.
     bind (bind (lookup2 data ''EUT'' ''Category'') py_int) (\<lambda>a3.
     bind (bind (lookup2 data ''EUT'' ''Sub_Category'') py_int) (\<lambda>a4.
     bind (lookup2 data ''EUT'' ''Unique_ID'') (\<lambda>a5.
     bind (lookup2 data ''EUT'' ''Manufacturer'') (\<lambda>a6.
     bind (lookup2 data ''EUT'' ''Product_code'') (\<lambda>a7.
     bind (lookup2 data ''EUT'' ''Sell_Country'') (\<lambda>a8.
     bind (lookup2 data ''EUT'' ''Sell_Year'') (\<lambda>a9.
     bind (lookup2 data ''EUT'' ''Rated_Power'') (\<lambda>a10.
     bind (bind (lookup2 data ''EUT'' ''Nominal_Frequency'') (py_float fparse)) (\<lambda>a11.
     bind (bind (lookup2 data ''EUT'' ''Nominal_Voltage'') py_int) (\<lambda>a12.
     bind (bind (lookup2 data ''EUT'' ''Supply_Source'') py_int) (\<lambda>a13.
     bind (lookup2 data ''EUT'' ''Description'') (\<lambda>a14.
     bind (lookup2 data ''Harmonics'' ''Current_Harmonics'') (\<lambda>a15.
     bind (lookup2 data ''Harmonics'' ''Voltage_Harmonics'') (\<lambda>a16.
     bind (waveform_sample_rate data) (\<lambda>a17.
     bind (waveform_data fparse data ''Current_Data'') (\<lambda>a18.
     bind (waveform_data fparse data ''Voltage_Data'') (\<lambda>a19.
     init a1 a2 a3 a4 a5 a6 a7 a8 a9 (PStr a10) a11 (PInt a12) a13 a14 a15 a16
          a17 a18 a19)))))))))))))))))))"

definition from_txt :: "(pystr \<Rightarrow> pyfloat option) \<Rightarrow> pystr \<Rightarrow> py_error + PandaFile" where
  "from_txt fparse text =
     bind (scan_lines (Map.empty, None) (py_readlines text)) (\<lambda>st. build fparse (fst st))"

section \<open>The harmonic spectrum sub-format\<close>

text \<open>\<open>np.isclose(m, 0)\<close> with the default tolerances is \<open>|m| \<le> 1e-8\<close>; on bit
  patterns, the magnitude bits compared with those of \<open>1e-8\<close>.  NaN and the infinities
  are not close to zero.\<close>

definition isclose0 :: "pyfloat \<Rightarrow> bool" where
  "isclose0 m = (m AND 0x7FFFFFFFFFFFFFFF \<le> 0x3E45798EE2308C3A)"

definition kept_entries ::
  "pynum list \<Rightarrow> pyfloat list \<Rightarrow> pyfloat list \<Rightarrow> (pynum \<times> pyfloat \<times> pyfloat) list" where
  "kept_entries orders mags phases =
     filter (\<lambda>e. \<not> isclose0 (fst (snd e))) (zip orders (zip mags phases))"

definition entry_string :: "(pyfloat \<Rightarrow> pystr) \<Rightarrow> pynum \<times> pyfloat \<times> pyfloat \<Rightarrow> pystr" where
  "entry_string fstr e =
     str_num fstr (fst e) @ [44] @ fstr (fst (snd e)) @ [44] @ fstr (snd (snd e)) @ [47]"

text \<open>\<open>zip(*[])\<close> is empty, so unpacking it into three names fails.\<close>

definition spectrum_to_string ::
  "(pyfloat \<Rightarrow> pystr) \<Rightarrow> pynum list \<Rightarrow> pyfloat list \<Rightarrow> pyfloat list \<Rightarrow> py_error + pystr" where
  "spectrum_to_string fstr harmonic_orders magnitudes_rms phase_angle_degree =
     (if length harmonic_orders \<noteq> length magnitudes_rms
         \<or> length harmonic_orders \<noteq> length phase_angle_degree then
        Inl (ValueError (U ''Length of harmonics, magnitudes and phases must be equal.''))
      else
        (let kept = kept_entries harmonic_orders magnitudes_rms phase_angle_degree
         in if kept = [] then Inl (UnpackError 3 0)
            else
              (let filtered_harmonic_orders = map fst kept;
                   filtered_magnitudes_rms = map (\<lambda>e. fst (snd e)) kept;
                   filtered_phase_angle_degree = map (\<lambda>e. snd (snd e)) kept;
                   spectrum_string =
                     concat (map (entry_string fstr)
                       (zip filtered_harmonic_orders
                         (zip filtered_magnitudes_rms filtered_phase_angle_degree)))
               in Inr (butlast spectrum_string))))"

fun spectrum_loop ::
  "(pystr \<Rightarrow> pyfloat option) \<Rightarrow> pystr list \<Rightarrow> pyfloat list \<times> pyfloat list \<times> pyfloat list \<Rightarrow>
   py_error + pyfloat list \<times> pyfloat list \<times> pyfloat list" where
  "spectrum_loop fparse [] acc = Inr acc"
| "spectrum_loop fparse (harmonic # rest) acc =
     (case py_split 44 harmonic of
        [a, b, c] \<Rightarrow>
          bind (py_float fparse a) (\<lambda>x.
          bind (py_float fparse b) (\<lambda>y.
          bind (py_float fparse c) (\<lambda>z.
          spectrum_loop fparse rest
            (fst acc @ [x], fst (snd acc) @ [y], snd (snd acc) @ [z]))))
      | pieces \<Rightarrow> Inl (UnpackError 3 (length pieces)))"

definition string_to_spectrum ::
  "(pystr \<Rightarrow> pyfloat option) \<Rightarrow> pystr \<Rightarrow>
   py_error + pyfloat list \<times> pyfloat list \<times> pyfloat list" where
  "string_to_spectrum fparse harmonic_string =
     (let s = (if py_endswith harmonic_string 47 then butlast harmonic_string
               else harmonic_string)
      in spectrum_loop fparse (py_split 47 s) ([], [], []))"

text \<open>Python's \<open>x == 0\<close> on a float: plus or minus zero.\<close>

definition is_zero :: "pyfloat \<Rightarrow> bool" where
  "is_zero m = (m AND 0x7FFFFFFFFFFFFFFF = 0)"

text \<open>The float a harmonic order becomes on the way through the string: \<open>float(str(i))\<close>
  for an \<open>int\<close>, written \<open>widen i\<close>.\<close>

definition widened :: "(int \<Rightarrow> pyfloat) \<Rightarrow> pynum \<Rightarrow> pyfloat" where
  "widened widen v = (case v of NInt i \<Rightarrow> widen i | NFloat x \<Rightarrow> x)"

subsection \<open>The decimal conversions at the values of the worked examples\<close>

text \<open>
  CPython's \<open>repr\<close> of a few floats (bit pattern, text) and \<open>float()\<close> of a few
  literals.  The worked examples use the two conversions at these values only; a float
  outside the first table is printed as \<open>nan\<close> and a literal outside the second one is
  refused.
\<close>

definition repr_excerpt :: "(pyfloat \<times> string) list" where
  "repr_excerpt =
     [(0x0000000000000000, ''0.0''), (0x3FF0000000000000, ''1.0''),
      (0x4008000000000000, ''3.0''), (0x4014000000000000, ''5.0''),
      (0x4014CCCCCCCCCCCD, ''5.2''), (0x4049000000000000, ''50.0''),
      (0x4066800000000000, ''180.0''), (0x406CC00000000000, ''230.0''),
      (0x3E112E0BE826D695, ''1e-09'')]"

definition fstr_excerpt :: "pyfloat \<Rightarrow> pystr" where
  "fstr_excerpt x = (case map_of repr_excerpt x of Some s \<Rightarrow> U s | None \<Rightarrow> U ''nan'')"

definition float_excerpt :: "(string \<times> pyfloat) list" where
  "float_excerpt =
     [(''0.0'', 0x0000000000000000), (''1.0'', 0x3FF0000000000000),
      (''3.0'', 0x4008000000000000), (''5.0'', 0x4014000000000000),
      (''5.2'', 0x4014CCCCCCCCCCCD), (''50.0'', 0x4049000000000000),
      (''180.0'', 0x4066800000000000), (''230.0'', 0x406CC00000000000),
      (''1e-09'', 0x3E112E0BE826D695),
      (''1'', 0x3FF0000000000000), (''3'', 0x4008000000000000),
      (''5'', 0x4014000000000000)]"

definition fparse_excerpt :: "pystr \<Rightarrow> pyfloat option" where
  "fparse_excerpt s = map_of (map (\<lambda>e. (U (fst e), snd e)) float_excerpt) s"

definition widen_excerpt :: "int \<Rightarrow> pyfloat" where
  "widen_excerpt i =
     (if i = 1 then 0x3FF0000000000000 else if i = 3 then 0x4008000000000000
      else if i = 5 then 0x4014000000000000 else 0)"

section \<open>Vocabulary of the statements\<close>

text \<open>
  \<open>key_ok\<close>: a key as \<open>to_txt\<close> writes it (no blank, no \<open>=\<close>).
  \<open>clean_value\<close>: a value that one \<open>Key = value;\<close> line carries unchanged: no line
  break, no \<open>;\<close>, no \<open>=\<close>, no blank at either end.
  \<open>number_text\<close>: the text of a number: not empty, no blank and none of \<open>, / ; =\<close>.
  \<open>line_ok\<close>: a written line, ending in its only line break.
  \<open>main_data\<close>: the dictionary the first three sections of a written file scan to.
  \<open>main_arguments\<close>: the first sixteen keyword arguments of the call \<open>cls(...)\<close> in
  \<open>from_txt\<close>, evaluated in the order of the source; what they yield is the call still
  waiting for \<open>sample_rate\<close>, \<open>current_data\<close> and \<open>voltage_data\<close>.
\<close>

definition key_ok :: "pystr \<Rightarrow> bool" where
  "key_ok k = (k \<noteq> [] \<and> list_all (\<lambda>c. \<not> py_isspace_char c \<and> c \<noteq> 61) k)"

definition clean_value :: "pystr \<Rightarrow> bool" where
  "clean_value v = (10 \<notin> set v \<and> 13 \<notin> set v \<and> 59 \<notin> set v \<and> 61 \<notin> set v \<and> py_strip v = v)"

definition number_text :: "pystr \<Rightarrow> bool" where
  "number_text s = (s \<noteq> [] \<and>
     list_all (\<lambda>c. \<not> py_isspace_char c \<and> c \<noteq> 44 \<and> c \<noteq> 47 \<and> c \<noteq> 59 \<and> c \<noteq> 61) s)"

definition line_ok :: "pystr \<Rightarrow> bool" where
  "line_ok l = (l \<noteq> [] \<and> last l = 10 \<and> 10 \<notin> set (butlast l) \<and> 13 \<notin> set l)"

definition main_data :: "(pyfloat \<Rightarrow> pystr) \<Rightarrow> PandaFile \<Rightarrow> data_dict" where
  "main_data fstr r =
     [U ''User Detail'' \<mapsto> [U ''Lab_ID'' \<mapsto> lab_id r, U ''User_ID'' \<mapsto> user_id r],
      U ''EUT'' \<mapsto>
        [U ''Category'' \<mapsto> category r, U ''Sub_Category'' \<mapsto> sub_category r,
         U ''Unique_ID'' \<mapsto> unique_id r, U ''Manufacturer'' \<mapsto> manufacturer r,
         U ''Product_code'' \<mapsto> product_code r, U ''Sell_Country'' \<mapsto> sell_country r,
         U ''Sell_Year'' \<mapsto> sell_year r,
         U ''Rated_Power'' \<mapsto> str_val fstr (rated_power r),
         U ''Nominal_Frequency'' \<mapsto> fstr (nominal_frequency r),
         U ''Nominal_Voltage'' \<mapsto> str_val fstr (nominal_voltage r),
         U ''Supply_Source'' \<mapsto> str_int (supply_source r),
         U ''Description'' \<mapsto> description r],
      U ''Harmonics'' \<mapsto>
        [U ''Current_Harmonics'' \<mapsto> current_harmonics r,
         U ''Voltage_Harmonics'' \<mapsto> voltage_harmonics r]]"

definition clean_record :: "(pyfloat \<Rightarrow> pystr) \<Rightarrow> PandaFile \<Rightarrow> bool" where
  "clean_record fstr r =
     (clean_value (lab_id r) \<and> clean_value (user_id r) \<and> clean_value (category r)
      \<and> clean_value (sub_category r) \<and> clean_value (unique_id r)
      \<and> clean_value (manufacturer r) \<and> clean_value (product_code r)
      \<and> clean_value (sell_country r) \<and> clean_value (sell_year r)
      \<and> clean_value (str_val fstr (rated_power r))
      \<and> clean_value (fstr (nominal_frequency r))
      \<and> clean_value (str_val fstr (nominal_voltage r))
      \<and> clean_value (description r) \<and> clean_value (current_harmonics r)
      \<and> clean_value (voltage_harmonics r))"

definition main_arguments ::
  "(pystr \<Rightarrow> pyfloat option) \<Rightarrow> data_dict \<Rightarrow>
   py_error + (int option \<Rightarrow> pyfloat list option \<Rightarrow> pyfloat list option \<Rightarrow>
               py_error + PandaFile)" where
  "main_arguments fparse data =
     bind (lookup2 data ''User Detail'' ''Lab_ID'') (\<lambda>a1.
     bind (lookup2 data ''User Detail'' ''User_ID'') (\<lambda>a2.
     bind (bind (lookup2 data ''EUT'' ''Category'') py_int) (\<lambda>a3.
     bind (bind (lookup2 data ''EUT'' ''Sub_Category'') py_int) (\<lambda>a4.
     bind (lookup2 data ''EUT'' ''Unique_ID'') (\<lambda>a5.
     bind (lookup2 data ''EUT'' ''Manufacturer'') (\<lambda>a6.
     bind (lookup2 data ''EUT'' ''Product_code'') (\<lambda>a7.
     bind (lookup2 data ''EUT'' ''Sell_Country'') (\<lambda>a8.
     bind (lookup2 data ''EUT'' ''Sell_Year'') (\<lambda>a9.
     bind (lookup2 data ''EUT'' ''Rated_Power'') (\<lambda>a10.
     bind (bind (lookup2 data ''EUT'' ''Nominal_Frequency'') (py_float fparse)) (\<lambda>a11.
     bind (bind (lookup2 data ''EUT'' ''Nominal_Voltage'') py_int) (\<lambda>a12.
     bind (bind (lookup2 data ''EUT'' ''Supply_Source'') py_int) (\<lambda>a13.
     bind (lookup2 data ''EUT'' ''Description'') (\<lambda>a14.
     bind (lookup2 data ''Harmonics'' ''Current_Harmonics'') (\<lambda>a15.
     bind (lookup2 data ''Harmonics'' ''Voltage_Harmonics'') (\<lambda>a16.
     Inr (init a1 a2 a3 a4 a5 a6 a7 a8 a9 (PStr a10) a11 (PInt a12) a13 a14 a15
            a16)))))))))))))))))"

text \<open>\<open>entry_ok\<close>: the three numbers of a spectrum entry are printed as number texts that
  \<open>float()\<close> reads back, an \<open>int\<close> order as the float \<open>widen\<close> gives.\<close>

definition entry_ok ::
  "(pyfloat \<Rightarrow> pystr) \<Rightarrow> (pystr \<Rightarrow> pyfloat option) \<Rightarrow> (int \<Rightarrow> pyfloat) \<Rightarrow>
   pynum \<times> pyfloat \<times> pyfloat \<Rightarrow> bool" where
  "entry_ok fstr fparse widen e =
     (number_text (str_num fstr (fst e))
      \<and> fparse (str_num fstr (fst e)) = Some (widened widen (fst e))
      \<and> number_text (fstr (fst (snd e))) \<and> fparse (fstr (fst (snd e))) = Some (fst (snd e))
      \<and> number_text (fstr (snd (snd e))) \<and> fparse (fstr (snd (snd e))) = Some (snd (snd e)))"

subsection \<open>A worked example\<close>

text \<open>A record with a waveform block; its floats are \<open>50.0\<close>, \<open>1.0\<close>, \<open>5.2\<close>,
  \<open>230.0\<close> and \<open>0.0\<close>.\<close>

definition example_record :: PandaFile where
  "example_record =
     \<lparr> lab_id = U ''1234'', user_id = U ''12'', category = U ''1'', sub_category = U ''7'',
       unique_id = U ''X1'', manufacturer = U ''ACME'', product_code = U ''P-100'',
       sell_country = U ''DE'', sell_year = U ''2020'', rated_power = PStr (U ''NA''),
       nominal_frequency = 0x4049000000000000, nominal_voltage = PInt 230,
       supply_source = 1, description = U ''LED lamp'',
       current_harmonics = U ''1,230.0,0.0/5,5.2,180.0'',
       voltage_harmonics = U ''1,230.0,0.0'',
       sample_rate = Some 1000,
       current_data = Some [0x3FF0000000000000, 0x4014CCCCCCCCCCCD],
       voltage_data = Some [0x406CC00000000000, 0x0000000000000000] \<rparr>"

text \<open>The file \<open>to_txt\<close> writes for it, without and with the waveform block, and the
  dictionary \<open>from_txt\<close> scans the latter to.\<close>

definition example_text_main :: pystr where
  "example_text_main =
     U ''TUDHDB_TXT_v01'' @ [10] @
     U ''[User Detail]'' @ [10] @
     U ''Lab_ID = 1234;'' @ [10] @
     U ''User_ID = 12;'' @ [10] @
     U ''[EUT]'' @ [10] @
     U ''Category = 1;'' @ [10] @
     U ''Sub_Category = 7;'' @ [10] @
     U ''Unique_ID = X1;'' @ [10] @
     U ''Manufacturer = ACME;'' @ [10] @
     U ''Product_code = P-100;'' @ [10] @
     U ''Sell_Country = DE;'' @ [10] @
     U ''Sell_Year = 2020;'' @ [10] @
     U ''Rated_Power = NA;'' @ [10] @
     U ''Nominal_Frequency = 50.0;'' @ [10] @
     U ''Nominal_Voltage = 230;'' @ [10] @
     U ''Supply_Source = 1;'' @ [10] @
     U ''Description = LED lamp;'' @ [10] @
     U ''[Harmonics]'' @ [10] @
     U ''Current_Harmonics = 1,230.0,0.0/5,5.2,180.0;'' @ [10] @
     U ''Voltage_Harmonics = 1,230.0,0.0;'' @ [10]"

definition example_text :: pystr where
  "example_text =
     example_text_main @
     U ''[Waveforms]'' @ [10] @
     U ''Sampling_Rate = 1000;'' @ [10] @
     U ''Current_Data = 1.0,5.2;'' @ [10] @
     U ''Voltage_Data = 230.0,0.0;'' @ [10]"

definition example_data :: data_dict where
  "example_data =
     (main_data fstr_excerpt example_record)
       (U ''Waveforms'' \<mapsto>
          [U ''Sampling_Rate'' \<mapsto> U ''1000'', U ''Current_Data'' \<mapsto> U ''1.0,5.2'',
           U ''Voltage_Data'' \<mapsto> U ''230.0,0.0''])"

section \<open>Evaluation rules\<close>

lemmas char_eval = U_def py_isspace_char_def isspace_ranges_def in_ranges_def
  py_isdigit_def py_isdigit_char_def isdigit_ranges_def

lemmas scan_eval = from_txt_def py_readlines_def scan_line_def py_strip_def
  py_strip_chars_def py_endswith_def bind_def Let_def

lemmas validate_eval = validate_property_def ALLOWED_CHARS_def MAX_LENGTHS_def bind_def
  str_int_def str_nat.simps

section \<open>Strings, lines and numbers\<close>

lemma U_eq_iff [simp]: "U a = U b \<longleftrightarrow> a = b"
  unfolding U_def by (rule inj_map_eq_map) (simp add: inj_on_def)

lemma U_append: "U (a @ b) = U a @ U b" by (simp add: U_def)

lemma py_split_nonempty [simp]: "py_split sep s \<noteq> []"
  by (induction s) (simp_all add: Let_def)

lemma py_split_none: "sep \<notin> set s \<Longrightarrow> py_split sep s = [s]"
  by (induction s) (auto simp: Let_def)

lemma py_split_first: "sep \<notin> set a \<Longrightarrow> py_split sep (a @ sep # b) = a # py_split sep b"
  by (induction a) (auto simp: Let_def)

lemma dropWhile_hd: "s \<noteq> [] \<Longrightarrow> \<not> P (hd s) \<Longrightarrow> dropWhile P s = s"
  by (cases s) auto

lemma py_strip_id: "s \<noteq> [] \<Longrightarrow> \<not> py_isspace_char (hd s) \<Longrightarrow> \<not> py_isspace_char (last s) \<Longrightarrow> py_strip s = s"
  by (simp add: py_strip_def dropWhile_hd hd_rev)

lemma py_strip_pad:
  assumes "list_all py_isspace_char a" "list_all py_isspace_char b"
  shows "py_strip (a @ s @ b) = py_strip s"
proof -
  have l: "dropWhile py_isspace_char (a @ t) = dropWhile py_isspace_char t" for t
    using assms(1) by (induction a) auto
  have r: "dropWhile py_isspace_char (rev b @ t) = dropWhile py_isspace_char t" for t
    using assms(2) by (induction b rule: rev_induct) (auto)
  show ?thesis
  proof (cases "list_all py_isspace_char s")
    case True
    have "dropWhile py_isspace_char (s @ b) = []" "dropWhile py_isspace_char s = []"
      using True assms(2) by (simp_all add: list_all_iff)
    then show ?thesis unfolding py_strip_def l by (simp only:)
  next
    case False
    then have "dropWhile py_isspace_char (s @ b) = dropWhile py_isspace_char s @ b"
      by (auto simp: dropWhile_append list_all_iff)
    then show ?thesis by (simp add: py_strip_def l r)
  qed
qed

lemma universal_newlines_id: "13 \<notin> set s \<Longrightarrow> universal_newlines s = s"
  by (induction s rule: universal_newlines.induct) auto

lemma lines_keepends_line:
  "10 \<notin> set b \<Longrightarrow> lines_keepends acc (b @ 10 # rest) = (rev acc @ b @ [10]) # lines_keepends [] rest"
  by (induction b arbitrary: acc) auto

lemma lines_keepends_concat:
  "list_all (\<lambda>l. \<exists>b. l = b @ [10] \<and> 10 \<notin> set b) ls \<Longrightarrow> lines_keepends [] (concat ls) = ls"
proof (induction ls)
  case Nil then show ?case by simp
next
  case (Cons l ls)
  then obtain b where b: "l = b @ [10]" "10 \<notin> set b" by auto
  have "lines_keepends [] (concat (l # ls)) = lines_keepends [] (b @ 10 # concat ls)"
    by (simp add: b)
  also have "\<dots> = (b @ [10]) # lines_keepends [] (concat ls)"
    using b(2) by (simp add: lines_keepends_line)
  finally show ?case using Cons b by simp
qed

lemma key_okD:
  assumes "key_ok k"
  shows "k \<noteq> []" "\<not> py_isspace_char (hd k)" "\<not> py_isspace_char (last k)" "61 \<notin> set k"
    "10 \<notin> set k" "13 \<notin> set k"
proof -
  have sp: "py_isspace_char 10" "py_isspace_char 13" by (simp_all add: char_eval)
  show ne: "k \<noteq> []" using assms by (simp add: key_ok_def)
  have a: "\<forall>c\<in>set k. \<not> py_isspace_char c \<and> c \<noteq> 61"
    using assms by (simp add: key_ok_def list_all_iff)
  from a ne show "\<not> py_isspace_char (hd k)" "\<not> py_isspace_char (last k)" by simp_all
  from a show "61 \<notin> set k" by auto
  from a sp show "10 \<notin> set k" "13 \<notin> set k" by auto
qed

lemma space_10 [simp]: "py_isspace_char 10" "py_isspace_char 32" "\<not> py_isspace_char 59" "\<not> py_isspace_char 61"
  by (simp_all add: char_eval)

lemma kv_line_alt: "kv_line k v = U k @ 32 # 61 # 32 # v @ [59, 10]"
  by (simp add: kv_line_def U_def)

lemma py_strip_kv:
  assumes "key_ok k"
  shows "py_strip (k @ 32 # 61 # 32 # v @ [59, 10]) = k @ 32 # 61 # 32 # v @ [59]"
proof -
  from assms obtain c cs where k: "k = c # cs" "\<not> py_isspace_char c"
    using key_okD(1,2) [OF assms] by (cases k) auto
  show ?thesis by (simp add: py_strip_def k)
qed

lemma scan_line_kv:
  assumes k: "key_ok (U k)" and v: "clean_value v" and d: "data s = Some d"
  shows "scan_line (data, Some s) (kv_line k v) = Inr (data(s \<mapsto> d(U k \<mapsto> v)), Some s)"
proof -
  let ?line = "U k @ 32 # 61 # 32 # v @ [59, 10]"
  have e: "\<not> py_endswith (py_strip ?line) 93"
    by (simp add: py_strip_kv [OF k] py_endswith_def)
  have a: "61 \<notin> set (U k @ [32])" using key_okD(4) [OF k] by simp
  have b: "61 \<notin> set (32 # v @ [59, 10])" using v by (simp add: clean_value_def)
  have sp: "py_split 61 ?line = [U k @ [32], 32 # v @ [59, 10]]"
    using py_split_first [OF a, of "32 # v @ [59, 10]"] py_split_none [OF b] by simp
  have "py_strip ([] @ U k @ [32]) = py_strip (U k)"
    by (rule py_strip_pad) simp_all
  then have sk: "py_strip (U k @ [32]) = U k"
    using key_okD [OF k] by (simp add: py_strip_id)
  have c: "59 \<notin> set (32 # v)" using v by (simp add: clean_value_def)
  have hv: "hd (py_split 59 (32 # v @ [59, 10])) = 32 # v"
    using py_split_first [OF c, of "[10]"] by simp
  have "py_strip ([32] @ v @ []) = py_strip v"
    by (rule py_strip_pad) simp_all
  then have sv: "py_strip (32 # v) = v" using v by (simp add: clean_value_def)
  show ?thesis
    unfolding kv_line_alt scan_line_def
    using e d by (simp add: sp sk hv sv del: py_split.simps)
qed

lemma scan_line_headers:
  "scan_line (data, sec) (U ''TUDHDB_TXT_v01'' @ [10]) = Inr (data, sec)"
  "scan_line (data, sec) (U ''[User Detail]'' @ [10]) = Inr (data(U ''User Detail'' \<mapsto> Map.empty), Some (U ''User Detail''))"
  "scan_line (data, sec) (U ''[EUT]'' @ [10]) = Inr (data(U ''EUT'' \<mapsto> Map.empty), Some (U ''EUT''))"
  "scan_line (data, sec) (U ''[Harmonics]'' @ [10]) = Inr (data(U ''Harmonics'' \<mapsto> Map.empty), Some (U ''Harmonics''))"
  "scan_line (data, sec) (U ''[Waveforms]'' @ [10]) = Inr (data(U ''Waveforms'' \<mapsto> Map.empty), Some (U ''Waveforms''))"
  by (simp_all add: scan_line_def py_strip_def py_strip_chars_def py_endswith_def Let_def char_eval)

lemma key_ok_keys:
  "key_ok (U ''Lab_ID'')" "key_ok (U ''User_ID'')" "key_ok (U ''Category'')"
  "key_ok (U ''Sub_Category'')" "key_ok (U ''Unique_ID'')" "key_ok (U ''Manufacturer'')"
  "key_ok (U ''Product_code'')" "key_ok (U ''Sell_Country'')" "key_ok (U ''Sell_Year'')"
  "key_ok (U ''Rated_Power'')" "key_ok (U ''Nominal_Frequency'')" "key_ok (U ''Nominal_Voltage'')"
  "key_ok (U ''Supply_Source'')" "key_ok (U ''Description'')" "key_ok (U ''Current_Harmonics'')"
  "key_ok (U ''Voltage_Harmonics'')" "key_ok (U ''Sampling_Rate'')" "key_ok (U ''Current_Data'')"
  "key_ok (U ''Voltage_Data'')"
  by (simp_all add: key_ok_def char_eval)

lemma decimal_value_ascii: "d < 10 \<Longrightarrow> decimal_value (48 + d) = Some d"
  by (simp add: decimal_value_def decimal_starts_def)

lemma digits_value_append:
  "digits_value acc (xs @ ys) = (case digits_value acc xs of None \<Rightarrow> None | Some a \<Rightarrow> digits_value a ys)"
  by (induction xs arbitrary: acc) (auto split: option.splits)

lemma digits_value_str_nat: "digits_value 0 (str_nat m) = Some m"
proof (induction m rule: str_nat.induct)
  case (1 n)
  show ?case
  proof (cases "n < 10")
    case True
    then show ?thesis by (subst str_nat.simps) (simp add: decimal_value_ascii)
  next
    case False
    with 1 have "digits_value 0 (str_nat (n div 10)) = Some (n div 10)" by simp
    with False show ?thesis
      by (subst str_nat.simps) (simp add: digits_value_append decimal_value_ascii)
  qed
qed

lemma str_nat_digits: "str_nat m \<noteq> [] \<and> (\<forall>c\<in>set (str_nat m). 48 \<le> c \<and> c \<le> 57)"
proof (induction m rule: str_nat.induct)
  case (1 n)
  show ?case
  proof (cases "n < 10")
    case True
    then show ?thesis by (subst (1 2) str_nat.simps) simp
  next
    case False
    with 1 have "\<forall>c\<in>set (str_nat (n div 10)). 48 \<le> c \<and> c \<le> 57" by simp
    moreover have "n mod 10 < 10" by simp
    ultimately show ?thesis using False
      by (subst (1 2) str_nat.simps) (auto simp del: mod_less_divisor)
  qed
qed

lemma int_digits_str_nat: "int_digits (str_nat m) = Some m"
proof -
  have "95 \<notin> set (str_nat m)" using str_nat_digits [of m] by auto
  then have "py_split 95 (str_nat m) = [str_nat m]" by (rule py_split_none)
  then show ?thesis
    using str_nat_digits [of m] by (simp add: int_digits_def digits_value_str_nat)
qed

lemma digit_not_int_space: "48 \<le> c \<Longrightarrow> c \<le> 57 \<Longrightarrow> \<not> int_space c"
  by (simp add: int_space_def)

lemma py_int_str_int: "py_int (str_int i) = Inr i"
proof -
  obtain c cs where s: "str_nat (nat \<bar>i\<bar>) = c # cs"
    using str_nat_digits [of "nat \<bar>i\<bar>"] by (cases "str_nat (nat \<bar>i\<bar>)") auto
  have dg: "\<forall>c\<in>set (str_nat (nat \<bar>i\<bar>)). 48 \<le> c \<and> c \<le> 57"
    using str_nat_digits by blast
  then have c: "48 \<le> c" "c \<le> 57" by (simp_all add: s)
  have l: "\<not> int_space (last (str_nat (nat \<bar>i\<bar>)))"
    using dg s by (intro digit_not_int_space) (metis last_in_set list.distinct(1))+
  define t where "t = str_int i"
  have t: "t \<noteq> []" "\<not> int_space (hd t)" "\<not> int_space (last t)"
    using c l s unfolding t_def str_int_def
    by (auto simp: int_space_def abs_if split: if_splits)
  then have strip: "rev (dropWhile int_space (rev (dropWhile int_space t))) = t"
    by (simp add: dropWhile_hd hd_rev)
  show ?thesis
  proof (cases "i < 0")
    case True
    then have "t = 45 # str_nat (nat (- i))" by (simp add: t_def str_int_def)
    then show ?thesis
      using True unfolding py_int_def t_def [symmetric] strip
      by (simp add: int_digits_str_nat)
  next
    case False
    then have ti: "t = str_nat (nat i)" "nat \<bar>i\<bar> = nat i" by (simp_all add: t_def str_int_def)
    then have "t = c # cs" using s by simp
    then show ?thesis
      using False c ti int_digits_str_nat [of "nat i"] unfolding py_int_def t_def [symmetric] strip
      by (auto simp: Let_def)
  qed
qed

lemma bind_Inr [simp]: "bind (Inr x) f = f x" by (simp add: bind_def)

lemma bind_Inl [simp]: "bind (Inl e) f = Inl e" by (simp add: bind_def)

lemma bind_eq_Inr: "bind m f = Inr y \<longleftrightarrow> (\<exists>x. m = Inr x \<and> f x = Inr y)"
  by (cases m) simp_all

lemma plain_clean:
  assumes "s \<noteq> []" "\<forall>c\<in>set s. \<not> py_isspace_char c \<and> c \<noteq> 59 \<and> c \<noteq> 61"
  shows "clean_value s"
proof -
  have "py_isspace_char 10" "py_isspace_char 13" by (simp_all add: char_eval)
  then have "10 \<notin> set s" "13 \<notin> set s" using assms(2) by auto
  moreover have "py_strip s = s" using assms by (intro py_strip_id) auto
  ultimately show ?thesis using assms(2) by (auto simp: clean_value_def)
qed

lemma number_text_clean: "number_text s \<Longrightarrow> clean_value s"
  by (rule plain_clean) (auto simp: number_text_def list_all_iff)

lemma digit_not_space: "48 \<le> c \<Longrightarrow> c \<le> 57 \<Longrightarrow> \<not> py_isspace_char c"
  by (simp add: char_eval)

lemma str_int_number_text: "number_text (str_int i)"
proof -
  have "\<forall>c\<in>set (str_int i). c = 45 \<or> (48 \<le> c \<and> c \<le> 57)"
    using str_nat_digits by (auto simp: str_int_def)
  moreover have "\<not> py_isspace_char 45" by (simp add: char_eval)
  ultimately have "\<forall>c\<in>set (str_int i). \<not> py_isspace_char c \<and> c \<noteq> 44 \<and> c \<noteq> 47 \<and> c \<noteq> 59 \<and> c \<noteq> 61"
    using digit_not_space by fastforce
  moreover have "str_int i \<noteq> []" using str_nat_digits by (simp add: str_int_def)
  ultimately show ?thesis by (simp add: number_text_def list_all_iff)
qed

lemma py_join_set: "set (py_join sep xs) \<subseteq> set sep \<union> \<Union> (set ` set xs)"
  by (induction sep xs rule: py_join.induct) auto

lemma py_join_nonempty: "xs \<noteq> [] \<Longrightarrow> hd xs \<noteq> [] \<Longrightarrow> py_join sep xs \<noteq> []"
  by (induction sep xs rule: py_join.induct) auto

lemma py_join_hd: "xs \<noteq> [] \<Longrightarrow> hd xs \<noteq> [] \<Longrightarrow> hd (py_join sep xs) = hd (hd xs)"
  by (induction sep xs rule: py_join.induct) auto

lemma py_join_nonempty_last: "xs \<noteq> [] \<Longrightarrow> last xs \<noteq> [] \<Longrightarrow> py_join sep xs \<noteq> []"
  by (induction sep xs rule: py_join.induct) auto

lemma py_join_last: "xs \<noteq> [] \<Longrightarrow> last xs \<noteq> [] \<Longrightarrow> last (py_join sep xs) = last (last xs)"
proof (induction sep xs rule: py_join.induct)
  case (3 sep p q ps)
  then have "py_join sep (q # ps) \<noteq> []" by (intro py_join_nonempty_last) simp_all
  with 3 show ?case by simp
qed simp_all

lemma py_join_clean:
  assumes "xs \<noteq> []" "list_all number_text xs"
  shows "clean_value (py_join [44] xs)"
proof -
  have ne: "hd xs \<noteq> []" "last xs \<noteq> []"
    using assms by (auto simp: list_all_iff number_text_def)
  have sp: "py_isspace_char 10" "py_isspace_char 13" by (simp_all add: char_eval)
  have el: "\<not> py_isspace_char c \<and> c \<noteq> 59 \<and> c \<noteq> 61" if "s \<in> set xs" "c \<in> set s" for s c
    using assms(2) that by (auto simp: list_all_iff number_text_def)
  have ch: "\<forall>c\<in>set (py_join [44] xs). c \<noteq> 59 \<and> c \<noteq> 61 \<and> c \<noteq> 10 \<and> c \<noteq> 13"
  proof
    fix c assume "c \<in> set (py_join [44] xs)"
    then consider "c = 44" | s where "s \<in> set xs" "c \<in> set s"
      using py_join_set [of "[44]" xs] by auto
    then show "c \<noteq> 59 \<and> c \<noteq> 61 \<and> c \<noteq> 10 \<and> c \<noteq> 13"
    proof cases
      case 1 then show ?thesis by simp
    next
      case 2
      from el [OF 2] sp show ?thesis by metis
    qed
  qed
  have "hd (hd xs) \<in> set (hd xs)" "last (last xs) \<in> set (last xs)" using ne by simp_all
  moreover have "hd xs \<in> set xs" "last xs \<in> set xs" using assms(1) by simp_all
  ultimately have "\<not> py_isspace_char (hd (hd xs))" "\<not> py_isspace_char (last (last xs))"
    using assms(2) by (auto simp: list_all_iff number_text_def)
  then have "py_strip (py_join [44] xs) = py_join [44] xs"
    using assms(1) ne by (intro py_strip_id) (simp_all add: py_join_nonempty py_join_hd py_join_last)
  then show ?thesis using ch by (auto simp: clean_value_def)
qed

lemma py_split_join:
  "xs \<noteq> [] \<Longrightarrow> list_all (\<lambda>s. sep \<notin> set s) xs \<Longrightarrow> py_split sep (py_join [sep] xs) = xs"
proof (induction "[sep]" xs rule: py_join.induct)
  case 1 then show ?case by simp
next
  case (2 p) then show ?case by (simp add: py_split_none)
next
  case (3 p q ps)
  then have "py_split sep (py_join [sep] (q # ps)) = q # ps" by simp
  moreover have "sep \<notin> set p" using 3 by simp
  ultimately show ?case
    using py_split_first [of sep p "py_join [sep] (q # ps)"] by simp
qed

lemma float_list_map:
  "\<forall>x\<in>set xs. fparse (fstr x) = Some x \<Longrightarrow> float_list fparse (map fstr xs) = Inr xs"
  by (induction xs) (simp_all add: py_float_def)

lemma validate_property_Inr:
  "validate_property n v d = Inr v' \<longleftrightarrow>
     v' = v \<and> (d \<longrightarrow> py_isdigit v) \<and> set v \<subseteq> set ALLOWED_CHARS
     \<and> (\<exists>m. map_of MAX_LENGTHS n = Some m \<and> length v \<le> m)"
  by (auto simp: validate_property_def list_ex_iff split: option.splits)

lemma allowed_no_breaks:
  "10 \<notin> set ALLOWED_CHARS" "13 \<notin> set ALLOWED_CHARS" "59 \<notin> set ALLOWED_CHARS"
  by (simp_all add: ALLOWED_CHARS_def U_def)

lemma allowed_digit_ascii:
  assumes "c \<in> set ALLOWED_CHARS" "py_isdigit_char c"
  shows "48 \<le> c \<and> c \<le> 57"
proof -
  have "list_all (\<lambda>c. \<not> py_isdigit_char c \<or> (48 \<le> c \<and> c \<le> 57)) ALLOWED_CHARS"
    by (simp add: ALLOWED_CHARS_def char_eval)
  with assms show ?thesis by (auto simp: list_all_iff)
qed

lemma digits_clean:
  assumes "py_isdigit v" "set v \<subseteq> set ALLOWED_CHARS"
  shows "clean_value v"
proof (rule plain_clean)
  show "v \<noteq> []" using assms(1) by (simp add: py_isdigit_def)
  show "\<forall>c\<in>set v. \<not> py_isspace_char c \<and> c \<noteq> 59 \<and> c \<noteq> 61"
  proof
    fix c assume "c \<in> set v"
    then have "48 \<le> c \<and> c \<le> 57"
      using assms allowed_digit_ascii by (auto simp: py_isdigit_def list_all_iff)
    then show "\<not> py_isspace_char c \<and> c \<noteq> 59 \<and> c \<noteq> 61"
      using digit_not_space by auto
  qed
qed

lemma scan_line_kv_upd:
  assumes "key_ok (U k)" "clean_value v"
  shows "scan_line (m(s \<mapsto> d), Some s) (kv_line k v) = Inr (m(s \<mapsto> d(U k \<mapsto> v)), Some s)"
  using scan_line_kv [OF assms, of "m(s \<mapsto> d)" s d] by simp

lemma scan_lines_append:
  "scan_lines st (a @ b) = bind (scan_lines st a) (\<lambda>st'. scan_lines st' b)"
  by (induction a arbitrary: st) (simp_all add: bind_def split: sum.splits)

lemma scan_header_lines:
  assumes "clean_record fstr r"
  shows "scan_lines (Map.empty, None) (header_lines fstr r)
           = Inr (main_data fstr r, Some (U ''Harmonics''))"
  using assms number_text_clean [OF str_int_number_text, of "supply_source r"]
  unfolding clean_record_def header_lines_def main_data_def
  by (simp add: scan_line_headers scan_line_kv_upd key_ok_keys)

lemma lines_keepends_ok:
  assumes "list_all line_ok ls"
  shows "lines_keepends [] (concat ls) = ls"
proof (rule lines_keepends_concat)
  show "list_all (\<lambda>l. \<exists>b. l = b @ [10] \<and> 10 \<notin> set b) ls"
    unfolding list_all_iff
  proof
    fix l assume "l \<in> set ls"
    then have "line_ok l" using assms by (simp add: list_all_iff)
    then have "l = butlast l @ [10] \<and> 10 \<notin> set (butlast l)"
      unfolding line_ok_def by (metis append_butlast_last_id)
    then show "\<exists>b. l = b @ [10] \<and> 10 \<notin> set b" by blast
  qed
qed

lemma py_readlines_ok:
  assumes "list_all line_ok ls"
  shows "py_readlines (concat ls) = ls"
proof -
  have "13 \<notin> set (concat ls)" using assms by (auto simp: list_all_iff line_ok_def)
  then show ?thesis
    by (simp add: py_readlines_def universal_newlines_id lines_keepends_ok [OF assms])
qed

lemma line_ok_kv: "key_ok (U k) \<Longrightarrow> clean_value v \<Longrightarrow> line_ok (kv_line k v)"
  using key_okD(5,6) [of "U k"]
  by (simp add: line_ok_def kv_line_def clean_value_def butlast_append U_def)

lemma line_ok_headers:
  "line_ok (U ''TUDHDB_TXT_v01'' @ [10])" "line_ok (U ''[User Detail]'' @ [10])"
  "line_ok (U ''[EUT]'' @ [10])" "line_ok (U ''[Harmonics]'' @ [10])"
  "line_ok (U ''[Waveforms]'' @ [10])"
  by (simp_all add: line_ok_def U_def)

lemma header_lines_ok: "clean_record fstr r \<Longrightarrow> list_all line_ok (header_lines fstr r)"
  using number_text_clean [OF str_int_number_text, of "supply_source r"]
  by (simp add: clean_record_def header_lines_def line_ok_headers line_ok_kv key_ok_keys)

lemma init_Inr:
  "init lab user cat sub uid manu pcode country year rpower nf volt src descr ch vh sr cd vd = Inr r
   \<longleftrightarrow>
   validate_property (U ''lab_id'') lab True = Inr lab
   \<and> validate_property (U ''user_id'') user True = Inr user
   \<and> validate_property (U ''category'') (str_int cat) True = Inr (str_int cat)
   \<and> validate_property (U ''sub_category'') (str_int sub) True = Inr (str_int sub)
   \<and> validate_property (U ''unique_id'') uid False = Inr uid
   \<and> validate_property (U ''manufacturer'') manu False = Inr manu
   \<and> validate_property (U ''product_code'') pcode False = Inr pcode
   \<and> validate_property (U ''sell_country'') country False = Inr country
   \<and> validate_property (U ''sell_year'') year True = Inr year
   \<and> validate_property (U ''description'') descr False = Inr descr
   \<and> r = \<lparr> lab_id = lab, user_id = user, category = str_int cat, sub_category = str_int sub,
           unique_id = uid, manufacturer = manu, product_code = pcode, sell_country = country,
           sell_year = year, rated_power = rpower, nominal_frequency = nf,
           nominal_voltage = volt, supply_source = src, description = descr,
           current_harmonics = ch, voltage_harmonics = vh, sample_rate = sr,
           current_data = cd, voltage_data = vd \<rparr>"
  unfolding init_def bind_eq_Inr validate_property_Inr by auto

lemma float_list_join:
  assumes "xs \<noteq> []" "list_all (\<lambda>x. number_text (fstr x) \<and> fparse (fstr x) = Some x) xs"
  shows "float_list fparse (py_split 44 (py_join [44] (map fstr xs))) = Inr xs"
proof -
  have "list_all (\<lambda>s. 44 \<notin> set s) (map fstr xs)"
    using assms(2) by (auto simp: list_all_iff number_text_def)
  then have "py_split 44 (py_join [44] (map fstr xs)) = map fstr xs"
    using assms(1) by (intro py_split_join) simp_all
  then show ?thesis using assms(2) by (simp add: float_list_map list_all_iff)
qed

lemma validated_digits_clean: "validate_property n v True = Inr v \<Longrightarrow> clean_value v"
  by (simp add: validate_property_Inr digits_clean)

lemma scan_waveform_lines:
  assumes "clean_value a" "clean_value b" "clean_value c"
  shows "scan_lines (data, sec)
           [U ''[Waveforms]'' @ [10], kv_line ''Sampling_Rate'' a,
            kv_line ''Current_Data'' b, kv_line ''Voltage_Data'' c]
         = Inr (data(U ''Waveforms'' \<mapsto>
                  [U ''Sampling_Rate'' \<mapsto> a, U ''Current_Data'' \<mapsto> b, U ''Voltage_Data'' \<mapsto> c]),
                Some (U ''Waveforms''))"
  using assms by (simp add: scan_line_headers scan_line_kv_upd key_ok_keys)

section \<open>Writing a file and scanning it\<close>

lemmas excerpt_eval = fstr_excerpt_def repr_excerpt_def fparse_excerpt_def float_excerpt_def

lemma excerpt_ok:
  "list_all (\<lambda>x. number_text (fstr_excerpt x) \<and> fparse_excerpt (fstr_excerpt x) = Some x)
     [0x0000000000000000, 0x3FF0000000000000, 0x4008000000000000, 0x4014000000000000,
      0x4014CCCCCCCCCCCD, 0x4049000000000000, 0x4066800000000000, 0x406CC00000000000,
      0x3E112E0BE826D695]"
  by (simp add: excerpt_eval number_text_def char_eval)

lemma example_clean:
  "clean_value (U ''X1'')" "clean_value (U ''ACME'')" "clean_value (U ''P-100'')"
  "clean_value (U ''DE'')" "clean_value (U ''LED lamp'')"
  "clean_value (U ''1,230.0,0.0/5,5.2,180.0'')" "clean_value (U ''1,230.0,0.0'')"
  "clean_value (U ''NA'')"
  by (simp_all add: clean_value_def py_strip_def char_eval)

lemma example_init:
  "init (U ''1234'') (U ''12'') 1 7 (U ''X1'') (U ''ACME'') (U ''P-100'') (U ''DE'')
     (U ''2020'') rp 0x4049000000000000 nv 1 (U ''LED lamp'')
     (U ''1,230.0,0.0/5,5.2,180.0'') (U ''1,230.0,0.0'') (Some 1000)
     (Some [0x3FF0000000000000, 0x4014CCCCCCCCCCCD])
     (Some [0x406CC00000000000, 0x0000000000000000])
   = Inr (example_record\<lparr>rated_power := rp, nominal_voltage := nv\<rparr>)"
  by (simp add: init_def validate_eval char_eval example_record_def)

lemma bind_assoc: "bind (bind m f) g = bind m (\<lambda>x. bind (f x) g)"
  by (cases m) simp_all

lemma write_lines_ok:
  "list_all (list_all encodable) ls \<Longrightarrow> write_lines f0 ls = Inr (f0 @ concat ls)"
  by (induction ls arbitrary: f0) (simp_all add: file_write_def)

lemma to_txt_written_main:
  assumes "sample_rate r = None" "list_all (list_all encodable) (header_lines fstr r)"
  shows "to_txt fstr r = Inr (concat (header_lines fstr r))"
  using assms by (simp add: to_txt_def write_lines_ok)

lemma to_txt_written:
  assumes "sample_rate r = Some sr" "current_data r = Some cd" "voltage_data r = Some vd"
    and "list_all (list_all encodable) (header_lines fstr r)"
    and "list_all encodable (kv_line ''Sampling_Rate'' (str_int sr))"
    and "list_all encodable (kv_line ''Current_Data'' (py_join [44] (map fstr cd)))"
    and "list_all encodable (kv_line ''Voltage_Data'' (py_join [44] (map fstr vd)))"
  shows "to_txt fstr r
     = Inr (concat (header_lines fstr r @
         [U ''[Waveforms]'' @ [10], kv_line ''Sampling_Rate'' (str_int sr),
          kv_line ''Current_Data'' (py_join [44] (map fstr cd)),
          kv_line ''Voltage_Data'' (py_join [44] (map fstr vd))]))"
proof -
  have "list_all encodable (U ''[Waveforms]'' @ [10])"
    by (simp add: U_def encodable_def)
  then show ?thesis
    using assms by (simp add: to_txt_def write_lines_ok file_write_def)
qed

lemma scan_written_main:
  assumes "clean_record fstr r"
  shows "scan_lines (Map.empty, None) (py_readlines (concat (header_lines fstr r)))
           = Inr (main_data fstr r, Some (U ''Harmonics''))"
  by (simp add: py_readlines_ok header_lines_ok scan_header_lines assms)

lemma scan_written_waveforms:
  assumes cr: "clean_record fstr r" and cl: "clean_value a" "clean_value b" "clean_value c"
  shows "scan_lines (Map.empty, None)
           (py_readlines (concat (header_lines fstr r @
              [U ''[Waveforms]'' @ [10], kv_line ''Sampling_Rate'' a,
               kv_line ''Current_Data'' b, kv_line ''Voltage_Data'' c])))
         = Inr ((main_data fstr r)(U ''Waveforms'' \<mapsto>
                  [U ''Sampling_Rate'' \<mapsto> a, U ''Current_Data'' \<mapsto> b, U ''Voltage_Data'' \<mapsto> c]),
                Some (U ''Waveforms''))"
proof -
  let ?wl = "[U ''[Waveforms]'' @ [10], kv_line ''Sampling_Rate'' a,
               kv_line ''Current_Data'' b, kv_line ''Voltage_Data'' c]"
  have ok: "list_all line_ok (header_lines fstr r @ ?wl)"
    using cl by (simp add: header_lines_ok cr line_ok_headers line_ok_kv key_ok_keys)
  show ?thesis
    unfolding py_readlines_ok [OF ok] scan_lines_append scan_header_lines [OF cr]
    by (simp only: bind_Inr scan_waveform_lines [OF cl])
qed

lemma build_InrD:
  assumes "build fparse data = Inr r"
  shows "waveform_sample_rate data = Inr (sample_rate r)"
    "waveform_data fparse data ''Current_Data'' = Inr (current_data r)"
    "waveform_data fparse data ''Voltage_Data'' = Inr (voltage_data r)"
  using assms by (auto simp: build_def bind_eq_Inr init_Inr)

lemma float_list_ok:
  "list_all (\<lambda>p. fparse p \<noteq> None) ps \<Longrightarrow> float_list fparse ps = Inr (map (\<lambda>p. the (fparse p)) ps)"
  by (induction ps) (auto simp: py_float_def)

lemma float_list_bad:
  "\<not> list_all (\<lambda>p. fparse p \<noteq> None) ps \<Longrightarrow>
     \<exists>p. p \<in> set ps \<and> fparse p = None \<and> float_list fparse ps = Inl (FloatLiteralError p)"
proof (induction ps)
  case Nil then show ?case by simp
next
  case (Cons q qs)
  show ?case
  proof (cases "fparse q")
    case None
    then show ?thesis by (auto simp: py_float_def)
  next
    case (Some x)
    with Cons obtain p where "p \<in> set qs" "fparse p = None"
      "float_list fparse qs = Inl (FloatLiteralError p)" by auto
    with Some show ?thesis by (auto simp: py_float_def)
  qed
qed

lemma float_list_first_bad:
  assumes "list_all (\<lambda>p. fparse p \<noteq> None) ps1" "fparse p = None"
  shows "float_list fparse (ps1 @ p # ps2) = Inl (FloatLiteralError p)"
  using assms by (induction ps1) (auto simp: py_float_def)

lemma build_main_arguments:
  "build fparse data =
     bind (main_arguments fparse data) (\<lambda>mk.
     bind (waveform_sample_rate data) (\<lambda>a17.
     bind (waveform_data fparse data ''Current_Data'') (\<lambda>a18.
     bind (waveform_data fparse data ''Voltage_Data'') (\<lambda>a19.
     mk a17 a18 a19))))"
  by (simp add: build_def main_arguments_def bind_assoc)

subsection \<open>The worked example\<close>

lemma example_waveform_texts:
  "str_int 1000 = U ''1000''"
  "py_join [44] (map fstr_excerpt [0x3FF0000000000000, 0x4014CCCCCCCCCCCD]) = U ''1.0,5.2''"
  "py_join [44] (map fstr_excerpt [0x406CC00000000000, 0x0000000000000000]) = U ''230.0,0.0''"
  by (simp_all add: str_int_def str_nat.simps excerpt_eval U_def)

lemma example_waveform_clean:
  "clean_value (U ''1000'')" "clean_value (U ''1.0,5.2'')" "clean_value (U ''230.0,0.0'')"
  by (simp_all add: clean_value_def py_strip_def char_eval)

lemma example_clean_record:
  assumes "clean_value (str_val fstr_excerpt rp)" "clean_value (str_val fstr_excerpt nv)"
  shows "clean_record fstr_excerpt
           (example_record\<lparr>rated_power := rp, nominal_voltage := nv, sample_rate := sr,
              current_data := cd, voltage_data := vd\<rparr>)"
proof -
  have "clean_value (U ''1234'')" "clean_value (U ''12'')" "clean_value (U ''1'')"
    "clean_value (U ''7'')" "clean_value (U ''2020'')"
    "clean_value (fstr_excerpt 0x4049000000000000)"
    by (simp_all add: clean_value_def py_strip_def excerpt_eval char_eval)
  then show ?thesis
    using assms example_clean by (simp add: clean_record_def example_record_def)
qed

lemma example_encodable:
  assumes "list_all encodable (str_val fstr_excerpt rp)"
    "list_all encodable (str_val fstr_excerpt nv)"
  shows "list_all (list_all encodable)
           (header_lines fstr_excerpt
              (example_record\<lparr>rated_power := rp, nominal_voltage := nv, sample_rate := sr,
                 current_data := cd, voltage_data := vd\<rparr>))"
  using assms
  by (simp add: header_lines_def kv_line_def example_record_def str_int_def str_nat.simps
      excerpt_eval U_def encodable_def)

lemma example_waveform_encodable:
  "list_all encodable (kv_line ''Sampling_Rate'' (U ''1000''))"
  "list_all encodable (kv_line ''Current_Data'' (U ''1.0,5.2''))"
  "list_all encodable (kv_line ''Voltage_Data'' (U ''230.0,0.0''))"
  by (simp_all add: kv_line_def U_def encodable_def)

text \<open>The example record with other values of \<open>rated_power\<close> and \<open>nominal_voltage\<close>: what
  \<open>to_txt\<close> writes is scanned to the dictionary of the written values.\<close>

lemma example_written:
  assumes c: "clean_value (str_val fstr_excerpt rp)" "clean_value (str_val fstr_excerpt nv)"
    and e: "list_all encodable (str_val fstr_excerpt rp)"
      "list_all encodable (str_val fstr_excerpt nv)"
  shows "bind (to_txt fstr_excerpt (example_record\<lparr>rated_power := rp, nominal_voltage := nv\<rparr>))
           (from_txt fparse_excerpt)
     = build fparse_excerpt
         ((main_data fstr_excerpt (example_record\<lparr>rated_power := rp, nominal_voltage := nv\<rparr>))
            (U ''Waveforms'' \<mapsto>
               [U ''Sampling_Rate'' \<mapsto> U ''1000'', U ''Current_Data'' \<mapsto> U ''1.0,5.2'',
                U ''Voltage_Data'' \<mapsto> U ''230.0,0.0'']))"
proof -
  let ?r = "example_record\<lparr>rated_power := rp, nominal_voltage := nv\<rparr>"
  have r: "?r = example_record\<lparr>rated_power := rp, nominal_voltage := nv,
      sample_rate := Some 1000,
      current_data := Some [0x3FF0000000000000, 0x4014CCCCCCCCCCCD],
      voltage_data := Some [0x406CC00000000000, 0x0000000000000000]\<rparr>"
    by (simp add: example_record_def)
  have cr: "clean_record fstr_excerpt ?r"
    using example_clean_record [OF c, where sr = "Some 1000"
        and cd = "Some [0x3FF0000000000000, 0x4014CCCCCCCCCCCD]"
        and vd = "Some [0x406CC00000000000, 0x0000000000000000]"]
    by (simp only: r [symmetric])
  have en: "list_all (list_all encodable) (header_lines fstr_excerpt ?r)"
    using example_encodable [OF e, where sr = "Some 1000"
        and cd = "Some [0x3FF0000000000000, 0x4014CCCCCCCCCCCD]"
        and vd = "Some [0x406CC00000000000, 0x0000000000000000]"]
    by (simp only: r [symmetric])
  have w: "sample_rate ?r = Some 1000"
    "current_data ?r = Some [0x3FF0000000000000, 0x4014CCCCCCCCCCCD]"
    "voltage_data ?r = Some [0x406CC00000000000, 0x0000000000000000]"
    by (simp_all add: example_record_def)
  have t: "to_txt fstr_excerpt ?r
     = Inr (concat (header_lines fstr_excerpt ?r @
         [U ''[Waveforms]'' @ [10], kv_line ''Sampling_Rate'' (U ''1000''),
          kv_line ''Current_Data'' (U ''1.0,5.2''),
          kv_line ''Voltage_Data'' (U ''230.0,0.0'')]))"
    using to_txt_written [OF w en] example_waveform_encodable
    by (simp only: example_waveform_texts simp_thms)
  show ?thesis
    unfolding t bind_Inr from_txt_def
      scan_written_waveforms [OF cr example_waveform_clean]
    by simp
qed

lemma example_to_txt: "to_txt fstr_excerpt example_record = Inr example_text"
  by (simp add: to_txt_def file_write_def encodable_def header_lines_def kv_line_def
      example_record_def example_text_def example_text_main_def U_def str_val_def
      str_int_def str_nat.simps excerpt_eval)

lemma example_to_txt_main:
  "to_txt fstr_excerpt (example_record\<lparr>sample_rate := None, current_data := None, voltage_data := None\<rparr>)
     = Inr example_text_main"
  by (simp add: to_txt_def file_write_def encodable_def header_lines_def kv_line_def
      example_record_def example_text_main_def U_def str_val_def str_int_def str_nat.simps
      excerpt_eval)

lemma example_values_clean:
  "clean_value (str_val fstr_excerpt (PStr (U ''NA'')))"
  "clean_value (str_val fstr_excerpt (PInt 230))"
  "list_all encodable (str_val fstr_excerpt (PStr (U ''NA'')))"
  "list_all encodable (str_val fstr_excerpt (PInt 230))"
  by (simp_all add: str_val_def str_int_def str_nat.simps clean_value_def py_strip_def
      encodable_def char_eval)

lemma example_record_updates:
  "example_record\<lparr>rated_power := PStr (U ''NA''), nominal_voltage := PInt 230\<rparr> = example_record"
  "example_record\<lparr>rated_power := PStr (U ''NA''), nominal_voltage := PInt 230,
      sample_rate := Some 1000,
      current_data := Some [0x3FF0000000000000, 0x4014CCCCCCCCCCCD],
      voltage_data := Some [0x406CC00000000000, 0x0000000000000000]\<rparr> = example_record"
  "main_data fstr_excerpt
     (example_record\<lparr>rated_power := PStr (U ''NA''), nominal_voltage := PInt 230,
        sample_rate := None, current_data := None, voltage_data := None\<rparr>)
   = main_data fstr_excerpt example_record"
  by (simp_all add: example_record_def main_data_def)

lemma example_text_lines:
  "example_text_main
     = concat (header_lines fstr_excerpt
         (example_record\<lparr>rated_power := PStr (U ''NA''), nominal_voltage := PInt 230,
            sample_rate := None, current_data := None, voltage_data := None\<rparr>))"
  "example_text
     = concat (header_lines fstr_excerpt example_record @
         [U ''[Waveforms]'' @ [10], kv_line ''Sampling_Rate'' (U ''1000''),
          kv_line ''Current_Data'' (U ''1.0,5.2''),
          kv_line ''Voltage_Data'' (U ''230.0,0.0'')])"
  by (simp_all add: header_lines_def kv_line_def example_record_def example_text_def
      example_text_main_def U_def str_val_def str_int_def str_nat.simps excerpt_eval)

lemma example_main_clean_record:
  "clean_record fstr_excerpt
     (example_record\<lparr>rated_power := PStr (U ''NA''), nominal_voltage := PInt 230,
        sample_rate := None, current_data := None, voltage_data := None\<rparr>)"
  by (rule example_clean_record [OF example_values_clean(1,2)])

lemma example_scan:
  "scan_lines (Map.empty, None) (py_readlines example_text)
     = Inr (example_data, Some (U ''Waveforms''))"
proof -
  have cr: "clean_record fstr_excerpt example_record"
    using example_clean_record [OF example_values_clean(1,2), where sr = "Some 1000"
        and cd = "Some [0x3FF0000000000000, 0x4014CCCCCCCCCCCD]"
        and vd = "Some [0x406CC00000000000, 0x0000000000000000]"]
    by (simp only: example_record_updates(2))
  show ?thesis
    unfolding example_text_lines example_data_def
    by (rule scan_written_waveforms [OF cr example_waveform_clean])
qed

text \<open>The file without a waveform block, followed by further lines.\<close>

lemma example_scan_extra:
  assumes "list_all line_ok ls"
  shows "scan_lines (Map.empty, None) (py_readlines (example_text_main @ concat ls))
     = scan_lines (main_data fstr_excerpt example_record, Some (U ''Harmonics'')) ls"
proof -
  let ?r = "example_record\<lparr>rated_power := PStr (U ''NA''), nominal_voltage := PInt 230,
        sample_rate := None, current_data := None, voltage_data := None\<rparr>"
  have ok: "list_all line_ok (header_lines fstr_excerpt ?r @ ls)"
    using assms by (simp add: header_lines_ok example_main_clean_record)
  have eq: "example_text_main @ concat ls = concat (header_lines fstr_excerpt ?r @ ls)"
    unfolding example_text_lines(1) by simp
  show ?thesis
    unfolding eq py_readlines_ok [OF ok] scan_lines_append
      scan_header_lines [OF example_main_clean_record] example_record_updates(3)
    by simp
qed

lemma example_scan_main:
  "scan_lines (Map.empty, None) (py_readlines example_text_main)
     = Inr (main_data fstr_excerpt example_record, Some (U ''Harmonics''))"
  using example_scan_extra [of "[]"] by simp

lemmas build_eval = lookup2_def main_data_def waveform_sample_rate_def
  waveform_data_def py_float_def example_record_def str_val_def str_int_def
  str_nat.simps excerpt_eval init_def validate_property_def ALLOWED_CHARS_def
  MAX_LENGTHS_def char_eval py_int_def int_space_def int_digits_def decimal_value_def
  decimal_starts_def Let_def

lemma example_main_arguments:
  "main_arguments fparse_excerpt ((main_data fstr_excerpt example_record)(U ''Waveforms'' := wv))
     = Inr (init (U ''1234'') (U ''12'') 1 7 (U ''X1'') (U ''ACME'') (U ''P-100'') (U ''DE'')
              (U ''2020'') (PStr (U ''NA'')) 0x4049000000000000 (PInt 230) 1 (U ''LED lamp'')
              (U ''1,230.0,0.0/5,5.2,180.0'') (U ''1,230.0,0.0''))"
  by (simp add: main_arguments_def build_eval)

lemma example_from_txt: "from_txt fparse_excerpt example_text = Inr example_record"
proof -
  have "build fparse_excerpt example_data = Inr example_record"
    by (simp add: build_def example_data_def build_eval)
  then show ?thesis by (simp add: from_txt_def example_scan)
qed

lemma example_from_txt_main:
  "from_txt fparse_excerpt example_text_main
     = Inr (example_record\<lparr>sample_rate := None, current_data := None, voltage_data := None\<rparr>)"
proof -
  have "build fparse_excerpt (main_data fstr_excerpt example_record)
     = Inr (example_record\<lparr>sample_rate := None, current_data := None, voltage_data := None\<rparr>)"
    by (simp add: build_def build_eval)
  then show ?thesis by (simp add: from_txt_def example_scan_main)
qed

section \<open>The spectrum codec: error paths\<close>

lemma kept_entries_all_close:
  assumes "list_all isclose0 ms"
  shows "kept_entries os ms ps = []"
proof -
  have "isclose0 (fst (snd e))" if "e \<in> set (zip os (zip ms ps))" for e
  proof -
    obtain a b c where e: "e = (a, b, c)" by (cases e) auto
    from that have "(b, c) \<in> set (zip ms ps)" unfolding e by (rule set_zip_rightD)
    then have "b \<in> set ms" by (rule set_zip_leftD)
    with assms show ?thesis by (simp add: e list_all_iff)
  qed
  then show ?thesis by (simp add: kept_entries_def filter_empty_conv)
qed

text \<open>
  Claim C9.  \<open>spectrum_to_string\<close> tests the three lengths first: whenever they are not
  all equal the result is the length-mismatch \<open>ValueError\<close>, whatever the sequences
  hold.  With equal lengths and every magnitude close to zero nothing survives the
  filter and the call raises (the unpacking of an empty \<open>zip\<close>) instead of returning a
  string; \<open>spectrum_to_string([1], [0.0], [0.0])\<close> is such a call.
\<close>

theorem spectrum_to_string_errors:
  "(length os \<noteq> length ms \<or> length os \<noteq> length ps \<longrightarrow>
      spectrum_to_string fstr os ms ps
        = Inl (ValueError (U ''Length of harmonics, magnitudes and phases must be equal.'')))
   \<and> (length os = length ms \<and> length os = length ps \<and> list_all isclose0 ms \<longrightarrow>
      spectrum_to_string fstr os ms ps = Inl (UnpackError 3 0))
   \<and> spectrum_to_string fstr [NInt 1] [0] [0] = Inl (UnpackError 3 0)"
proof -
  have "kept_entries [NInt 1] [0] [0] = []"
    by (simp add: kept_entries_def isclose0_def)
  then show ?thesis
    by (simp add: spectrum_to_string_def kept_entries_all_close)
qed

theorem spectrum_to_string_errors_witness:
  "length [NInt 1, NInt 3] \<noteq> length [0 :: pyfloat]
   \<and> spectrum_to_string fstr_excerpt [NInt 1, NInt 3] [0] [0]
        = Inl (ValueError (U ''Length of harmonics, magnitudes and phases must be equal.''))
   \<and> list_all isclose0 [0, 0x3E112E0BE826D695]
   \<and> spectrum_to_string fstr_excerpt [NInt 1, NInt 3] [0, 0x3E112E0BE826D695] [0, 0]
        = Inl (UnpackError 3 0)"
  using spectrum_to_string_errors [of "[NInt 1, NInt 3]" "[0]" "[0]" fstr_excerpt]
    spectrum_to_string_errors [of "[NInt 1, NInt 3]" "[0, 0x3E112E0BE826D695]" "[0, 0]"
      fstr_excerpt]
  by (simp add: isclose0_def)

text \<open>
  Claim C10.  \<open>string_to_spectrum('')\<close> raises: \<open>''.split('/')\<close> is \<open>['']\<close>, and the one
  piece \<open>''.split(',')\<close> yields cannot be unpacked into order, magnitude and phase.  It
  does not return three empty lists, so the empty string is not the encoding of an
  empty spectrum.
\<close>

theorem string_to_spectrum_empty:
  "string_to_spectrum fparse [] = Inl (UnpackError 3 1)"
  by (simp add: string_to_spectrum_def py_endswith_def)

section \<open>Validation: the allowed characters\<close>

text \<open>
  Claim C3.  The apostrophe (U+0027) is in the set the specification lists, yet a
  \<open>unique_id\<close> containing one is refused with the disallowed-character error; and
  U+00E2, which is outside the listed set, is accepted.  The constant holds the three
  characters U+00E2, U+20AC, U+02DC where a quotation mark was meant.
\<close>

theorem allowed_chars_apostrophe:
  "validate_property (U ''unique_id'') (U ''O'' @ [0x27] @ U ''Neil'') False
     = Inl (ValueError (U ''Disallowed characters found in unique_id.''))
   \<and> validate_property (U ''unique_id'') [0xE2] False = Inr [0xE2]"
  by (simp add: validate_property_def ALLOWED_CHARS_def MAX_LENGTHS_def U_def)

section \<open>Construction: the waveform block\<close>

text \<open>
  Claim C2.  \<open>__init__\<close> stores \<open>sample_rate\<close>, \<open>current_data\<close> and \<open>voltage_data\<close> as
  given.  A direct construction with waveform data and no sampling rate succeeds, and so
  does one with a sampling rate and no waveform data; on the latter record \<open>to_txt\<close>
  raises \<open>TypeError\<close>.
\<close>

theorem init_partial_waveform:
  "init (U ''1234'') (U ''12'') 1 7 (U ''X1'') (U ''ACME'') (U ''P-100'') (U ''DE'')
     (U ''2020'') (PStr (U ''NA'')) 0x4049000000000000 (PInt 230) 1 (U ''LED lamp'')
     (U ''1,230.0,0.0/5,5.2,180.0'') (U ''1,230.0,0.0'') None
     (Some [0x3FF0000000000000, 0x4014CCCCCCCCCCCD])
     (Some [0x406CC00000000000, 0x0000000000000000])
   = Inr (example_record\<lparr>sample_rate := None\<rparr>)
   \<and> init (U ''1234'') (U ''12'') 1 7 (U ''X1'') (U ''ACME'') (U ''P-100'') (U ''DE'')
     (U ''2020'') (PStr (U ''NA'')) 0x4049000000000000 (PInt 230) 1 (U ''LED lamp'')
     (U ''1,230.0,0.0/5,5.2,180.0'') (U ''1,230.0,0.0'') (Some 1000) None None
   = Inr (example_record\<lparr>current_data := None, voltage_data := None\<rparr>)
   \<and> to_txt fstr_excerpt (example_record\<lparr>current_data := None, voltage_data := None\<rparr>)
     = Inl TypeError"
proof -
  have a: "init (U ''1234'') (U ''12'') 1 7 (U ''X1'') (U ''ACME'') (U ''P-100'') (U ''DE'')
     (U ''2020'') (PStr (U ''NA'')) 0x4049000000000000 (PInt 230) 1 (U ''LED lamp'')
     (U ''1,230.0,0.0/5,5.2,180.0'') (U ''1,230.0,0.0'') sr cd vd
   = Inr (example_record\<lparr>sample_rate := sr, current_data := cd, voltage_data := vd\<rparr>)"
    for sr cd vd
    by (simp add: init_def validate_eval char_eval example_record_def)
  have u1: "example_record\<lparr>sample_rate := None,
        current_data := Some [0x3FF0000000000000, 0x4014CCCCCCCCCCCD],
        voltage_data := Some [0x406CC00000000000, 0x0000000000000000]\<rparr>
      = example_record\<lparr>sample_rate := None\<rparr>"
    by (simp add: example_record_def)
  have u2: "example_record\<lparr>sample_rate := Some 1000, current_data := None, voltage_data := None\<rparr>
      = example_record\<lparr>current_data := None, voltage_data := None\<rparr>"
    by (simp add: example_record_def)
  have b: "to_txt fstr_excerpt (example_record\<lparr>current_data := None, voltage_data := None\<rparr>)
     = Inl TypeError"
    by (simp add: to_txt_def file_write_def encodable_def header_lines_def kv_line_def
        example_record_def U_def str_val_def str_int_def str_nat.simps excerpt_eval)
  show ?thesis
    by (simp only: a u1 u2 b simp_thms)
qed

section \<open>Reading: the line scanner\<close>

text \<open>
  Claim C5.  In an open section, a line whose value holds a second \<open>=\<close> is not read as
  a key and a value: \<open>line.split('=')\<close> yields three pieces and the unpacking into
  \<open>key, value\<close> raises.
\<close>

theorem from_txt_second_equals:
  "from_txt fparse (U ''[EUT]'' @ [10] @ U ''Description = a=b;'' @ [10])
     = Inl (UnpackError 2 3)"
  by (simp add: scan_eval char_eval numeral_3_eq_3)

text \<open>
  Claim C6.  A line containing \<open>=\<close> before any section header is not skipped:
  \<open>section\<close> is still \<open>None\<close> and \<open>data[section]\<close> raises \<open>KeyError\<close>.
\<close>

theorem from_txt_equals_before_section:
  "from_txt fparse (U ''note = draft'' @ [10] @ U ''[User Detail]'' @ [10])
     = Inl (KeyError None)"
  by (simp add: scan_eval char_eval)

section \<open>Writing and reading back\<close>

text \<open>
  Claim C1.  The round trip fails on \<open>nominal_voltage\<close>, one of the numeric fields the
  claim names.  A record constructed with \<open>nominal_voltage = 230.0\<close>, the float the
  signature and the docstring announce, is written as \<open>Nominal_Voltage = 230.0;\<close> and
  \<open>from_txt\<close> raises on it: \<open>int('230.0')\<close> is a \<open>ValueError\<close>, where the sibling
  \<open>nominal_frequency\<close> is read with \<open>float()\<close>.  With \<open>nominal_voltage = 230\<close> the same
  record is read back, but its \<open>rated_power = 75\<close> returns as the string \<open>'75'\<close>.
\<close>

theorem to_txt_from_txt_numeric_fields:
  "init (U ''1234'') (U ''12'') 1 7 (U ''X1'') (U ''ACME'') (U ''P-100'') (U ''DE'')
     (U ''2020'') (PInt 75) 0x4049000000000000 (PFloat 0x406CC00000000000) 1 (U ''LED lamp'')
     (U ''1,230.0,0.0/5,5.2,180.0'') (U ''1,230.0,0.0'') (Some 1000)
     (Some [0x3FF0000000000000, 0x4014CCCCCCCCCCCD])
     (Some [0x406CC00000000000, 0x0000000000000000])
   = Inr (example_record\<lparr>rated_power := PInt 75, nominal_voltage := PFloat 0x406CC00000000000\<rparr>)
   \<and> bind (to_txt fstr_excerpt
             (example_record\<lparr>rated_power := PInt 75, nominal_voltage := PFloat 0x406CC00000000000\<rparr>))
        (from_txt fparse_excerpt)
     = Inl (IntLiteralError (U ''230.0''))
   \<and> bind (to_txt fstr_excerpt (example_record\<lparr>rated_power := PInt 75\<rparr>))
        (from_txt fparse_excerpt)
     = Inr (example_record\<lparr>rated_power := PStr (U ''75'')\<rparr>)
   \<and> example_record\<lparr>rated_power := PStr (U ''75'')\<rparr> \<noteq> example_record\<lparr>rated_power := PInt 75\<rparr>"
proof -
  have s: "str_val fstr_excerpt (PInt 75) = U ''75''"
    "str_val fstr_excerpt (PFloat 0x406CC00000000000) = U ''230.0''"
    "str_val fstr_excerpt (PInt 230) = U ''230''"
    by (simp_all add: str_val_def str_int_def str_nat.simps excerpt_eval U_def)
  have c: "clean_value (U ''75'')" "clean_value (U ''230.0'')" "clean_value (U ''230'')"
    by (simp_all add: clean_value_def py_strip_def char_eval)
  have e: "list_all encodable (U ''75'')" "list_all encodable (U ''230.0'')"
    "list_all encodable (U ''230'')"
    by (simp_all add: U_def encodable_def)
  have a: "bind (to_txt fstr_excerpt
             (example_record\<lparr>rated_power := PInt 75, nominal_voltage := PFloat 0x406CC00000000000\<rparr>))
        (from_txt fparse_excerpt)
     = Inl (IntLiteralError (U ''230.0''))"
    unfolding example_written [of "PInt 75" "PFloat 0x406CC00000000000",
        unfolded s, OF c(1,2) e(1,2)]
    by (simp add: build_def build_eval)
  have b: "bind (to_txt fstr_excerpt (example_record\<lparr>rated_power := PInt 75\<rparr>))
        (from_txt fparse_excerpt)
     = Inr (example_record\<lparr>rated_power := PStr (U ''75'')\<rparr>)"
    using example_written [of "PInt 75" "PInt 230", unfolded s, OF c(1,3) e(1,3)]
    by (simp add: build_def build_eval)
  have i: "init (U ''1234'') (U ''12'') 1 7 (U ''X1'') (U ''ACME'') (U ''P-100'') (U ''DE'')
     (U ''2020'') (PInt 75) 0x4049000000000000 (PFloat 0x406CC00000000000) 1 (U ''LED lamp'')
     (U ''1,230.0,0.0/5,5.2,180.0'') (U ''1,230.0,0.0'') (Some 1000)
     (Some [0x3FF0000000000000, 0x4014CCCCCCCCCCCD])
     (Some [0x406CC00000000000, 0x0000000000000000])
   = Inr (example_record\<lparr>rated_power := PInt 75, nominal_voltage := PFloat 0x406CC00000000000\<rparr>)"
    by (rule example_init)
  have n: "example_record\<lparr>rated_power := PStr (U ''75'')\<rparr> \<noteq> example_record\<lparr>rated_power := PInt 75\<rparr>"
    by (simp add: example_record_def)
  show ?thesis
    by (simp only: a b i n simp_thms)
qed

section \<open>Validation: the order of the checks\<close>

text \<open>
  Claim C4, as amended.  For a field of \<open>MAX_LENGTHS\<close> the checks run in the order
  digit-only (when asked for), character set, length, and the first one violated decides
  the \<open>ValueError\<close>, whose message names the field and the rule; a value passing all
  three is returned unchanged.  A value that is empty or holds a character that
  \<open>str.isdigit\<close> does not count as a digit fails the digit-only check.  A value holding
  a character other than \<open>0\<close> to \<open>9\<close> is always rejected by a digit-only field: by the
  digit-only check, or, when all its characters are Unicode digits, by the
  character-set check.
\<close>

theorem validate_property_order:
  assumes "map_of MAX_LENGTHS name = Some n"
  shows
   "(d \<and> \<not> py_isdigit v \<longrightarrow>
       validate_property name v d = Inl (ValueError (name @ U '' must contain only digits.'')))
    \<and> (\<not> (d \<and> \<not> py_isdigit v) \<and> \<not> set v \<subseteq> set ALLOWED_CHARS \<longrightarrow>
       validate_property name v d
         = Inl (ValueError (U ''Disallowed characters found in '' @ name @ U ''.'')))
    \<and> (\<not> (d \<and> \<not> py_isdigit v) \<and> set v \<subseteq> set ALLOWED_CHARS \<and> n < length v \<longrightarrow>
       validate_property name v d
         = Inl (ValueError (name @ U '' exceeds maximum length of '' @ str_nat n
                            @ U '' characters.'')))
    \<and> (\<not> (d \<and> \<not> py_isdigit v) \<and> set v \<subseteq> set ALLOWED_CHARS \<and> length v \<le> n \<longrightarrow>
       validate_property name v d = Inr v)
    \<and> (v = [] \<or> \<not> list_all py_isdigit_char v \<longrightarrow>
       validate_property name v True
         = Inl (ValueError (name @ U '' must contain only digits.'')))
    \<and> (\<not> list_all (\<lambda>c. 48 \<le> c \<and> c \<le> 57) v \<longrightarrow>
       validate_property name v True
         = Inl (ValueError (name @ U '' must contain only digits.''))
       \<or> validate_property name v True
         = Inl (ValueError (U ''Disallowed characters found in '' @ name @ U ''.'')))"
proof -
  have "py_isdigit v \<Longrightarrow> set v \<subseteq> set ALLOWED_CHARS \<Longrightarrow> list_all (\<lambda>c. 48 \<le> c \<and> c \<le> 57) v"
    using allowed_digit_ascii by (auto simp: py_isdigit_def list_all_iff)
  then show ?thesis
    using assms by (auto simp: validate_property_def list_ex_iff py_isdigit_def)
qed

theorem validate_property_order_witness:
  "map_of MAX_LENGTHS (U ''lab_id'') = Some 4
   \<and> \<not> py_isdigit (U ''12a'')
   \<and> validate_property (U ''lab_id'') (U ''12a'') True
       = Inl (ValueError (U ''lab_id must contain only digits.''))
   \<and> validate_property (U ''lab_id'') (U ''12;45'') False
       = Inl (ValueError (U ''Disallowed characters found in lab_id.''))
   \<and> validate_property (U ''lab_id'') (U ''12345'') True
       = Inl (ValueError (U ''lab_id exceeds maximum length of 4 characters.''))
   \<and> validate_property (U ''lab_id'') (U ''1234'') True = Inr (U ''1234'')"
  using validate_property_order [of "U ''lab_id''" 4 True "U ''12a''"]
    validate_property_order [of "U ''lab_id''" 4 False "U ''12;45''"]
    validate_property_order [of "U ''lab_id''" 4 True "U ''12345''"]
    validate_property_order [of "U ''lab_id''" 4 True "U ''1234''"]
  by (simp add: MAX_LENGTHS_def ALLOWED_CHARS_def char_eval str_nat.simps)

text \<open>
  Claim C4 as stated fails where it says that any character other than \<open>0\<close> to \<open>9\<close>
  fails the digit-only check: \<open>'\<^sup>2'.isdigit()\<close> holds for the superscript two (U+00B2),
  so \<open>lab_id = '\<^sup>2'\<close> passes the digit-only check and is refused by the next one, with
  the disallowed-character message.
\<close>

theorem validate_property_superscript_digit:
  "\<not> (48 \<le> (0xB2 :: nat) \<and> (0xB2 :: nat) \<le> 57)
   \<and> py_isdigit [0xB2]
   \<and> validate_property (U ''lab_id'') [0xB2] True
       = Inl (ValueError (U ''Disallowed characters found in lab_id.''))"
  by (simp add: validate_property_def ALLOWED_CHARS_def char_eval)

section \<open>Reading: the waveform block\<close>

text \<open>
  Claim C7.  Let the lines of a document scan to the dictionary \<open>data\<close>.  If \<open>data\<close> has
  no \<open>Waveforms\<close> section, a record \<open>from_txt\<close> returns has \<open>sample_rate\<close>,
  \<open>current_data\<close> and \<open>voltage_data\<close> all absent.  If it has one, a record \<open>from_txt\<close>
  returns has all three present: the section holds the three keys, \<open>sample_rate\<close> is
  \<open>int\<close> of \<open>Sampling_Rate\<close>, and each data list is \<open>float\<close> of every piece of the
  value split at the commas.

  When the sixteen arguments before them evaluate, the three waveform arguments decide
  what \<open>from_txt\<close> does, in their order.  Without the section the call is made with the
  three absent.  With it, a missing \<open>Sampling_Rate\<close> makes \<open>from_txt\<close> raise \<open>KeyError\<close>
  for that key, and a value \<open>int()\<close> refuses its conversion error; then the same for
  \<open>Current_Data\<close> and after it \<open>Voltage_Data\<close>: a missing key raises \<open>KeyError\<close> for it,
  and the first piece that \<open>float()\<close> refuses raises the conversion error for that
  piece; otherwise the call is made with the integer and the two lists of floats.
\<close>

theorem from_txt_waveforms:
  assumes "scan_lines (Map.empty, None) (py_readlines text) = Inr (data, sec)"
  shows
   "(data (U ''Waveforms'') = None \<and> from_txt fparse text = Inr r \<longrightarrow>
       sample_rate r = None \<and> current_data r = None \<and> voltage_data r = None)
    \<and> (data (U ''Waveforms'') = Some w \<and> from_txt fparse text = Inr r \<longrightarrow>
       (\<exists>a b c n xs ys.
          w (U ''Sampling_Rate'') = Some a \<and> w (U ''Current_Data'') = Some b
          \<and> w (U ''Voltage_Data'') = Some c
          \<and> py_int a = Inr n \<and> sample_rate r = Some n
          \<and> float_list fparse (py_split 44 b) = Inr xs \<and> current_data r = Some xs
          \<and> float_list fparse (py_split 44 c) = Inr ys \<and> voltage_data r = Some ys))
    \<and> (data (U ''Waveforms'') = Some w
        \<and> (w (U ''Sampling_Rate'') = None \<or> w (U ''Current_Data'') = None
            \<or> w (U ''Voltage_Data'') = None) \<longrightarrow>
       (\<exists>e. from_txt fparse text = Inl e))
    \<and> (data (U ''Waveforms'') = Some w \<and> w (U ''Sampling_Rate'') = None \<longrightarrow>
       waveform_sample_rate data = Inl (KeyError (Some (U ''Sampling_Rate''))))
    \<and> (data (U ''Waveforms'') = Some w \<and> w (U key) = None \<longrightarrow>
       waveform_data fparse data key = Inl (KeyError (Some (U key))))
    \<and> (data (U ''Waveforms'') = Some w \<and> w (U key) = Some s
        \<and> list_all (\<lambda>p. fparse p \<noteq> None) (py_split 44 s) \<longrightarrow>
       waveform_data fparse data key = Inr (Some (map (\<lambda>p. the (fparse p)) (py_split 44 s))))
    \<and> (data (U ''Waveforms'') = Some w \<and> w (U key) = Some s
        \<and> \<not> list_all (\<lambda>p. fparse p \<noteq> None) (py_split 44 s) \<longrightarrow>
       (\<exists>p. p \<in> set (py_split 44 s) \<and> fparse p = None
            \<and> waveform_data fparse data key = Inl (FloatLiteralError p)))
    \<and> (main_arguments fparse data = Inr mk \<longrightarrow>
         (data (U ''Waveforms'') = None \<longrightarrow> from_txt fparse text = mk None None None)
       \<and> (data (U ''Waveforms'') = Some w \<and> w (U ''Sampling_Rate'') = None \<longrightarrow>
            from_txt fparse text = Inl (KeyError (Some (U ''Sampling_Rate''))))
       \<and> (data (U ''Waveforms'') = Some w \<and> w (U ''Sampling_Rate'') = Some a
           \<and> py_int a = Inl e \<longrightarrow>
            from_txt fparse text = Inl e)
       \<and> (data (U ''Waveforms'') = Some w \<and> w (U ''Sampling_Rate'') = Some a
           \<and> py_int a = Inr n \<longrightarrow>
            (w (U ''Current_Data'') = None \<longrightarrow>
               from_txt fparse text = Inl (KeyError (Some (U ''Current_Data''))))
          \<and> (w (U ''Current_Data'') = Some b \<and> py_split 44 b = ps1 @ p # ps2
              \<and> list_all (\<lambda>p. fparse p \<noteq> None) ps1 \<and> fparse p = None \<longrightarrow>
               from_txt fparse text = Inl (FloatLiteralError p))
          \<and> (w (U ''Current_Data'') = Some b
              \<and> list_all (\<lambda>p. fparse p \<noteq> None) (py_split 44 b) \<longrightarrow>
               (w (U ''Voltage_Data'') = None \<longrightarrow>
                  from_txt fparse text = Inl (KeyError (Some (U ''Voltage_Data''))))
             \<and> (w (U ''Voltage_Data'') = Some c \<and> py_split 44 c = qs1 @ q # qs2
                 \<and> list_all (\<lambda>p. fparse p \<noteq> None) qs1 \<and> fparse q = None \<longrightarrow>
                  from_txt fparse text = Inl (FloatLiteralError q))
             \<and> (w (U ''Voltage_Data'') = Some c
                 \<and> list_all (\<lambda>p. fparse p \<noteq> None) (py_split 44 c) \<longrightarrow>
                  from_txt fparse text
                    = mk (Some n) (Some (map (\<lambda>p. the (fparse p)) (py_split 44 b)))
                        (Some (map (\<lambda>p. the (fparse p)) (py_split 44 c)))))))"
proof -
  have ft: "from_txt fparse text = build fparse data"
    by (simp add: from_txt_def assms)
  have absent: "sample_rate r = None \<and> current_data r = None \<and> voltage_data r = None"
    if "data (U ''Waveforms'') = None" "from_txt fparse text = Inr r"
    using build_InrD [of fparse data r] that by (simp add: ft waveform_sample_rate_def waveform_data_def)
  have present: "\<exists>a b c n xs ys.
          w (U ''Sampling_Rate'') = Some a \<and> w (U ''Current_Data'') = Some b
          \<and> w (U ''Voltage_Data'') = Some c
          \<and> py_int a = Inr n \<and> sample_rate r' = Some n
          \<and> float_list fparse (py_split 44 b) = Inr xs \<and> current_data r' = Some xs
          \<and> float_list fparse (py_split 44 c) = Inr ys \<and> voltage_data r' = Some ys"
    if "data (U ''Waveforms'') = Some w" "from_txt fparse text = Inr r'" for r'
    using build_InrD [of fparse data r'] that
    by (auto simp: ft waveform_sample_rate_def waveform_data_def lookup2_def bind_eq_Inr
        split: option.splits)
  have missing: "\<exists>e. from_txt fparse text = Inl e"
    if "data (U ''Waveforms'') = Some w"
      "w (U ''Sampling_Rate'') = None \<or> w (U ''Current_Data'') = None
            \<or> w (U ''Voltage_Data'') = None"
  proof (cases "from_txt fparse text")
    case (Inl e) then show ?thesis by blast
  next
    case (Inr r')
    from present [of r'] that Inr show ?thesis by auto
  qed
  have bad: "\<exists>p. p \<in> set (py_split 44 s) \<and> fparse p = None
            \<and> waveform_data fparse data key = Inl (FloatLiteralError p)"
    if "data (U ''Waveforms'') = Some w" "w (U key) = Some s"
        "\<not> list_all (\<lambda>p. fparse p \<noteq> None) (py_split 44 s)"
    using float_list_bad [OF that(3)] that(1,2)
    by (auto simp: waveform_data_def lookup2_def)
  have o1: "data (U ''Waveforms'') = Some w \<and> w (U ''Sampling_Rate'') = None \<longrightarrow>
       waveform_sample_rate data = Inl (KeyError (Some (U ''Sampling_Rate'')))"
    by (simp add: waveform_sample_rate_def lookup2_def)
  have o2: "data (U ''Waveforms'') = Some w \<and> w (U key) = None \<longrightarrow>
       waveform_data fparse data key = Inl (KeyError (Some (U key)))"
    by (simp add: waveform_data_def lookup2_def)
  have o3: "data (U ''Waveforms'') = Some w \<and> w (U key) = Some s
        \<and> list_all (\<lambda>p. fparse p \<noteq> None) (py_split 44 s) \<longrightarrow>
       waveform_data fparse data key = Inr (Some (map (\<lambda>p. the (fparse p)) (py_split 44 s)))"
    by (simp add: waveform_data_def lookup2_def float_list_ok)
  have new: "(data (U ''Waveforms'') = None \<longrightarrow> from_txt fparse text = mk None None None)
       \<and> (data (U ''Waveforms'') = Some w \<and> w (U ''Sampling_Rate'') = None \<longrightarrow>
            from_txt fparse text = Inl (KeyError (Some (U ''Sampling_Rate''))))
       \<and> (data (U ''Waveforms'') = Some w \<and> w (U ''Sampling_Rate'') = Some a
           \<and> py_int a = Inl e \<longrightarrow>
            from_txt fparse text = Inl e)
       \<and> (data (U ''Waveforms'') = Some w \<and> w (U ''Sampling_Rate'') = Some a
           \<and> py_int a = Inr n \<longrightarrow>
            (w (U ''Current_Data'') = None \<longrightarrow>
               from_txt fparse text = Inl (KeyError (Some (U ''Current_Data''))))
          \<and> (w (U ''Current_Data'') = Some b \<and> py_split 44 b = ps1 @ p # ps2
              \<and> list_all (\<lambda>p. fparse p \<noteq> None) ps1 \<and> fparse p = None \<longrightarrow>
               from_txt fparse text = Inl (FloatLiteralError p))
          \<and> (w (U ''Current_Data'') = Some b
              \<and> list_all (\<lambda>p. fparse p \<noteq> None) (py_split 44 b) \<longrightarrow>
               (w (U ''Voltage_Data'') = None \<longrightarrow>
                  from_txt fparse text = Inl (KeyError (Some (U ''Voltage_Data''))))
             \<and> (w (U ''Voltage_Data'') = Some c \<and> py_split 44 c = qs1 @ q # qs2
                 \<and> list_all (\<lambda>p. fparse p \<noteq> None) qs1 \<and> fparse q = None \<longrightarrow>
                  from_txt fparse text = Inl (FloatLiteralError q))
             \<and> (w (U ''Voltage_Data'') = Some c
                 \<and> list_all (\<lambda>p. fparse p \<noteq> None) (py_split 44 c) \<longrightarrow>
                  from_txt fparse text
                    = mk (Some n) (Some (map (\<lambda>p. the (fparse p)) (py_split 44 b)))
                        (Some (map (\<lambda>p. the (fparse p)) (py_split 44 c))))))"
    if "main_arguments fparse data = Inr mk"
    unfolding ft build_main_arguments that bind_Inr
    by (simp add: waveform_sample_rate_def waveform_data_def lookup2_def float_list_ok
        float_list_first_bad)
  have p1: "data (U ''Waveforms'') = None \<and> from_txt fparse text = Inr r \<longrightarrow>
       sample_rate r = None \<and> current_data r = None \<and> voltage_data r = None"
    using absent by blast
  have p2: "data (U ''Waveforms'') = Some w \<and> from_txt fparse text = Inr r \<longrightarrow>
       (\<exists>a b c n xs ys.
          w (U ''Sampling_Rate'') = Some a \<and> w (U ''Current_Data'') = Some b
          \<and> w (U ''Voltage_Data'') = Some c
          \<and> py_int a = Inr n \<and> sample_rate r = Some n
          \<and> float_list fparse (py_split 44 b) = Inr xs \<and> current_data r = Some xs
          \<and> float_list fparse (py_split 44 c) = Inr ys \<and> voltage_data r = Some ys)"
    using present [of r] by blast
  have p3: "data (U ''Waveforms'') = Some w
        \<and> (w (U ''Sampling_Rate'') = None \<or> w (U ''Current_Data'') = None
            \<or> w (U ''Voltage_Data'') = None) \<longrightarrow>
       (\<exists>e. from_txt fparse text = Inl e)"
    using missing by blast
  have p7: "data (U ''Waveforms'') = Some w \<and> w (U key) = Some s
        \<and> \<not> list_all (\<lambda>p. fparse p \<noteq> None) (py_split 44 s) \<longrightarrow>
       (\<exists>p. p \<in> set (py_split 44 s) \<and> fparse p = None
            \<and> waveform_data fparse data key = Inl (FloatLiteralError p))"
    using bad by blast
  show ?thesis
    by (intro conjI p1 p2 p3 o1 o2 o3 p7 impI new)
qed

text \<open>
  The example file, the file without its waveform block, and that file followed by a
  waveform block cut short or holding a value that does not convert.
\<close>

theorem from_txt_waveforms_witness:
  "main_arguments fparse_excerpt example_data
     = Inr (init (U ''1234'') (U ''12'') 1 7 (U ''X1'') (U ''ACME'') (U ''P-100'') (U ''DE'')
              (U ''2020'') (PStr (U ''NA'')) 0x4049000000000000 (PInt 230) 1 (U ''LED lamp'')
              (U ''1,230.0,0.0/5,5.2,180.0'') (U ''1,230.0,0.0''))
   \<and> from_txt fparse_excerpt example_text = Inr example_record
   \<and> sample_rate example_record = Some 1000
   \<and> current_data example_record = Some [0x3FF0000000000000, 0x4014CCCCCCCCCCCD]
   \<and> voltage_data example_record = Some [0x406CC00000000000, 0x0000000000000000]
   \<and> from_txt fparse_excerpt example_text_main
       = Inr (example_record\<lparr>sample_rate := None, current_data := None, voltage_data := None\<rparr>)
   \<and> from_txt fparse_excerpt (example_text_main @ U ''[Waveforms]'' @ [10])
       = Inl (KeyError (Some (U ''Sampling_Rate'')))
   \<and> from_txt fparse_excerpt
        (example_text_main @ U ''[Waveforms]'' @ [10] @ kv_line ''Sampling_Rate'' (U ''1e3''))
       = Inl (IntLiteralError (U ''1e3''))
   \<and> from_txt fparse_excerpt
        (example_text_main @ U ''[Waveforms]'' @ [10] @ kv_line ''Sampling_Rate'' (U ''1000''))
       = Inl (KeyError (Some (U ''Current_Data'')))
   \<and> from_txt fparse_excerpt
        (example_text_main @ U ''[Waveforms]'' @ [10] @ kv_line ''Sampling_Rate'' (U ''1000'')
         @ kv_line ''Current_Data'' (U ''1.0,abc''))
       = Inl (FloatLiteralError (U ''abc''))
   \<and> from_txt fparse_excerpt
        (example_text_main @ U ''[Waveforms]'' @ [10] @ kv_line ''Sampling_Rate'' (U ''1000'')
         @ kv_line ''Current_Data'' (U ''1.0,5.2''))
       = Inl (KeyError (Some (U ''Voltage_Data'')))
   \<and> from_txt fparse_excerpt
        (example_text_main @ U ''[Waveforms]'' @ [10] @ kv_line ''Sampling_Rate'' (U ''1000'')
         @ kv_line ''Current_Data'' (U ''1.0,5.2'') @ kv_line ''Voltage_Data'' (U ''230.0,x''))
       = Inl (FloatLiteralError (U ''x''))
   \<and> waveform_sample_rate
        ((main_data fstr_excerpt example_record)(U ''Waveforms'' \<mapsto> Map.empty))
       = Inl (KeyError (Some (U ''Sampling_Rate'')))
   \<and> waveform_data fparse_excerpt example_data ''Current_Data''
       = Inr (Some [0x3FF0000000000000, 0x4014CCCCCCCCCCCD])"
proof -
  let ?D = "main_data fstr_excerpt example_record"
  let ?W = "U ''Waveforms''"
  let ?mk = "init (U ''1234'') (U ''12'') 1 7 (U ''X1'') (U ''ACME'') (U ''P-100'') (U ''DE'')
              (U ''2020'') (PStr (U ''NA'')) 0x4049000000000000 (PInt 230) 1 (U ''LED lamp'')
              (U ''1,230.0,0.0/5,5.2,180.0'') (U ''1,230.0,0.0'')"
  have cl: "clean_value (U ''1000'')" "clean_value (U ''1e3'')" "clean_value (U ''1.0,abc'')"
    "clean_value (U ''1.0,5.2'')" "clean_value (U ''230.0,x'')"
    by (simp_all add: clean_value_def py_strip_def char_eval)
  have sc1: "scan_lines (Map.empty, None) (py_readlines (example_text_main @ U ''[Waveforms]'' @ [10]))
       = Inr (?D(?W \<mapsto> Map.empty), Some ?W)"
    using example_scan_extra [of "[U ''[Waveforms]'' @ [10]]"]
    by (simp add: line_ok_headers scan_line_headers)
  have sc2: "scan_lines (Map.empty, None)
        (py_readlines (example_text_main @ U ''[Waveforms]'' @ [10] @ kv_line ''Sampling_Rate'' a))
       = Inr (?D(?W \<mapsto> [U ''Sampling_Rate'' \<mapsto> a]), Some ?W)"
    if "clean_value a" for a
    using example_scan_extra [of "[U ''[Waveforms]'' @ [10], kv_line ''Sampling_Rate'' a]"] that
    by (simp add: line_ok_headers line_ok_kv key_ok_keys scan_line_headers scan_line_kv_upd)
  have sc3: "scan_lines (Map.empty, None)
        (py_readlines (example_text_main @ U ''[Waveforms]'' @ [10] @ kv_line ''Sampling_Rate'' a
           @ kv_line ''Current_Data'' b))
       = Inr (?D(?W \<mapsto> [U ''Sampling_Rate'' \<mapsto> a, U ''Current_Data'' \<mapsto> b]), Some ?W)"
    if "clean_value a" "clean_value b" for a b
    using example_scan_extra [of "[U ''[Waveforms]'' @ [10], kv_line ''Sampling_Rate'' a,
        kv_line ''Current_Data'' b]"] that
    by (simp add: line_ok_headers line_ok_kv key_ok_keys scan_line_headers scan_line_kv_upd)
  have sc4: "scan_lines (Map.empty, None)
        (py_readlines (example_text_main @ U ''[Waveforms]'' @ [10] @ kv_line ''Sampling_Rate'' a
           @ kv_line ''Current_Data'' b @ kv_line ''Voltage_Data'' c))
       = Inr (?D(?W \<mapsto> [U ''Sampling_Rate'' \<mapsto> a, U ''Current_Data'' \<mapsto> b,
                U ''Voltage_Data'' \<mapsto> c]), Some ?W)"
    if "clean_value a" "clean_value b" "clean_value c" for a b c
    using example_scan_extra [of "[U ''[Waveforms]'' @ [10], kv_line ''Sampling_Rate'' a,
        kv_line ''Current_Data'' b, kv_line ''Voltage_Data'' c]"] that
    by (simp add: line_ok_headers line_ok_kv key_ok_keys scan_line_headers scan_line_kv_upd)
  have nw: "?D ?W = None" by (simp add: main_data_def)
  have i: "py_int (U ''1000'') = Inr 1000" "py_int (U ''1e3'') = Inl (IntLiteralError (U ''1e3''))"
    by (simp_all add: py_int_def int_space_def int_digits_def decimal_value_def
        decimal_starts_def Let_def U_def)
  have p: "py_split 44 (U ''1.0,5.2'') = [U ''1.0'', U ''5.2'']"
    "py_split 44 (U ''1.0,abc'') = [U ''1.0''] @ U ''abc'' # []"
    "py_split 44 (U ''230.0,x'') = [U ''230.0''] @ U ''x'' # []"
    "py_split 44 (U ''230.0,0.0'') = [U ''230.0'', U ''0.0'']"
    by (simp_all add: U_def Let_def)
  have e: "fparse_excerpt (U ''1.0'') = Some 0x3FF0000000000000"
    "fparse_excerpt (U ''5.2'') = Some 0x4014CCCCCCCCCCCD"
    "fparse_excerpt (U ''230.0'') = Some 0x406CC00000000000"
    "fparse_excerpt (U ''0.0'') = Some 0x0000000000000000"
    "fparse_excerpt (U ''abc'') = None" "fparse_excerpt (U ''x'') = None"
    by (simp_all add: excerpt_eval)
  have ma: "main_arguments fparse_excerpt (?D(?W := wv)) = Inr ?mk" for wv
    by (rule example_main_arguments)
  have ma0: "main_arguments fparse_excerpt ?D = Inr ?mk"
    using ma [of None] nw by (simp add: fun_upd_idem)
  have c1: "main_arguments fparse_excerpt example_data = Inr ?mk"
    unfolding example_data_def by (rule ma)
  have c2: "from_txt fparse_excerpt (example_text_main @ U ''[Waveforms]'' @ [10])
       = Inl (KeyError (Some (U ''Sampling_Rate'')))"
    using from_txt_waveforms [OF sc1, where fparse = fparse_excerpt and mk = ?mk
        and w = Map.empty] ma [of "Some Map.empty"]
    by simp
  have c3: "from_txt fparse_excerpt
        (example_text_main @ U ''[Waveforms]'' @ [10] @ kv_line ''Sampling_Rate'' (U ''1e3''))
       = Inl (IntLiteralError (U ''1e3''))"
    using from_txt_waveforms [OF sc2 [OF cl(2)], where fparse = fparse_excerpt and mk = ?mk
        and w = "[U ''Sampling_Rate'' \<mapsto> U ''1e3'']" and a = "U ''1e3''"
        and e = "IntLiteralError (U ''1e3'')"]
      ma [of "Some [U ''Sampling_Rate'' \<mapsto> U ''1e3'']"]
    by (simp add: i)
  have c4: "from_txt fparse_excerpt
        (example_text_main @ U ''[Waveforms]'' @ [10] @ kv_line ''Sampling_Rate'' (U ''1000''))
       = Inl (KeyError (Some (U ''Current_Data'')))"
    using from_txt_waveforms [OF sc2 [OF cl(1)], where fparse = fparse_excerpt and mk = ?mk
        and w = "[U ''Sampling_Rate'' \<mapsto> U ''1000'']" and a = "U ''1000''" and n = 1000]
      ma [of "Some [U ''Sampling_Rate'' \<mapsto> U ''1000'']"]
    by (simp add: i)
  have c5: "from_txt fparse_excerpt
        (example_text_main @ U ''[Waveforms]'' @ [10] @ kv_line ''Sampling_Rate'' (U ''1000'')
         @ kv_line ''Current_Data'' (U ''1.0,abc''))
       = Inl (FloatLiteralError (U ''abc''))"
    using from_txt_waveforms [OF sc3 [OF cl(1,3)], where fparse = fparse_excerpt and mk = ?mk
        and w = "[U ''Sampling_Rate'' \<mapsto> U ''1000'', U ''Current_Data'' \<mapsto> U ''1.0,abc'']"
        and a = "U ''1000''" and n = 1000 and b = "U ''1.0,abc''"
        and ?ps1.0 = "[U ''1.0'']" and p = "U ''abc''" and ?ps2.0 = "[]"]
      ma [of "Some [U ''Sampling_Rate'' \<mapsto> U ''1000'', U ''Current_Data'' \<mapsto> U ''1.0,abc'']"]
    by (simp add: i p(2) e)
  have c6: "from_txt fparse_excerpt
        (example_text_main @ U ''[Waveforms]'' @ [10] @ kv_line ''Sampling_Rate'' (U ''1000'')
         @ kv_line ''Current_Data'' (U ''1.0,5.2''))
       = Inl (KeyError (Some (U ''Voltage_Data'')))"
    using from_txt_waveforms [OF sc3 [OF cl(1,4)], where fparse = fparse_excerpt and mk = ?mk
        and w = "[U ''Sampling_Rate'' \<mapsto> U ''1000'', U ''Current_Data'' \<mapsto> U ''1.0,5.2'']"
        and a = "U ''1000''" and n = 1000 and b = "U ''1.0,5.2''"]
      ma [of "Some [U ''Sampling_Rate'' \<mapsto> U ''1000'', U ''Current_Data'' \<mapsto> U ''1.0,5.2'']"]
    by (simp add: i p(1) e)
  have c7: "from_txt fparse_excerpt
        (example_text_main @ U ''[Waveforms]'' @ [10] @ kv_line ''Sampling_Rate'' (U ''1000'')
         @ kv_line ''Current_Data'' (U ''1.0,5.2'') @ kv_line ''Voltage_Data'' (U ''230.0,x''))
       = Inl (FloatLiteralError (U ''x''))"
    using from_txt_waveforms [OF sc4 [OF cl(1,4,5)], where fparse = fparse_excerpt and mk = ?mk
        and w = "[U ''Sampling_Rate'' \<mapsto> U ''1000'', U ''Current_Data'' \<mapsto> U ''1.0,5.2'',
                  U ''Voltage_Data'' \<mapsto> U ''230.0,x'']"
        and a = "U ''1000''" and n = 1000 and b = "U ''1.0,5.2''" and c = "U ''230.0,x''"
        and ?qs1.0 = "[U ''230.0'']" and q = "U ''x''" and ?qs2.0 = "[]"]
      ma [of "Some [U ''Sampling_Rate'' \<mapsto> U ''1000'', U ''Current_Data'' \<mapsto> U ''1.0,5.2'',
                  U ''Voltage_Data'' \<mapsto> U ''230.0,x'']"]
    by (simp add: i p(1,3) e)
  have c8: "from_txt fparse_excerpt example_text_main
       = Inr (example_record\<lparr>sample_rate := None, current_data := None, voltage_data := None\<rparr>)"
    using from_txt_waveforms [OF example_scan_main, where fparse = fparse_excerpt
        and mk = ?mk] ma0 nw
    by (simp add: init_def validate_property_def ALLOWED_CHARS_def MAX_LENGTHS_def
        char_eval str_int_def str_nat.simps example_record_def)
  have w0: "example_data ?W
       = Some [U ''Sampling_Rate'' \<mapsto> U ''1000'', U ''Current_Data'' \<mapsto> U ''1.0,5.2'',
               U ''Voltage_Data'' \<mapsto> U ''230.0,0.0'']"
    by (simp add: example_data_def)
  have mv: "?mk (Some 1000) (Some [0x3FF0000000000000, 0x4014CCCCCCCCCCCD])
        (Some [0x406CC00000000000, 0x0000000000000000]) = Inr example_record"
    using example_init [of "PStr (U ''NA'')" "PInt 230"]
    by (simp only: example_record_updates(1))
  have "from_txt fparse_excerpt example_text
       = ?mk (Some 1000) (Some [0x3FF0000000000000, 0x4014CCCCCCCCCCCD])
           (Some [0x406CC00000000000, 0x0000000000000000])"
    using from_txt_waveforms [OF example_scan, where fparse = fparse_excerpt and mk = ?mk
        and w = "[U ''Sampling_Rate'' \<mapsto> U ''1000'', U ''Current_Data'' \<mapsto> U ''1.0,5.2'',
                  U ''Voltage_Data'' \<mapsto> U ''230.0,0.0'']"
        and a = "U ''1000''" and n = 1000 and b = "U ''1.0,5.2''" and c = "U ''230.0,0.0''"]
    by (simp add: c1 w0 i p(1,4) e)
  then have c9: "from_txt fparse_excerpt example_text = Inr example_record"
    by (simp only: mv)
  have c10: "waveform_sample_rate (?D(?W \<mapsto> Map.empty))
       = Inl (KeyError (Some (U ''Sampling_Rate'')))"
    using from_txt_waveforms [OF sc1, where fparse = fparse_excerpt and w = Map.empty]
    by simp
  have c11: "waveform_data fparse_excerpt example_data ''Current_Data''
       = Inr (Some [0x3FF0000000000000, 0x4014CCCCCCCCCCCD])"
    using from_txt_waveforms [OF example_scan, where fparse = fparse_excerpt
        and key = "''Current_Data''" and s = "U ''1.0,5.2''"
        and w = "[U ''Sampling_Rate'' \<mapsto> U ''1000'', U ''Current_Data'' \<mapsto> U ''1.0,5.2'',
                  U ''Voltage_Data'' \<mapsto> U ''230.0,0.0'']"]
    by (simp add: w0 p(1) e)
  have c12: "sample_rate example_record = Some 1000"
    "current_data example_record = Some [0x3FF0000000000000, 0x4014CCCCCCCCCCCD]"
    "voltage_data example_record = Some [0x406CC00000000000, 0x0000000000000000]"
    by (simp_all add: example_record_def)
  show ?thesis
    by (simp only: c1 c2 c3 c4 c5 c6 c7 c8 c9 c10 c11 c12 simp_thms)
qed

section \<open>The spectrum codec: encoding and decoding\<close>

lemma zip_unzip3:
  "zip (map fst k) (zip (map (\<lambda>e. fst (snd e)) k) (map (\<lambda>e. snd (snd e)) k)) = k"
  by (induction k) auto

lemma butlast_concat_join:
  "xs \<noteq> [] \<Longrightarrow> butlast (concat (map (\<lambda>x. x @ [c]) xs)) = py_join [c] xs"
proof (induction "[c]" xs rule: py_join.induct)
  case 1 then show ?case by simp
next
  case (2 p) then show ?case by simp
next
  case (3 p q ps)
  have "concat (map (\<lambda>x. x @ [c]) (q # ps)) \<noteq> []" by simp
  then have "butlast (concat (map (\<lambda>x. x @ [c]) (p # q # ps)))
     = (p @ [c]) @ butlast (concat (map (\<lambda>x. x @ [c]) (q # ps)))"
    by (simp only: list.map concat.simps butlast_append if_False)
  with 3 show ?case by simp
qed

lemma py_split_three:
  assumes "44 \<notin> set a" "44 \<notin> set b" "44 \<notin> set c"
  shows "py_split 44 (a @ 44 # b @ 44 # c) = [a, b, c]"
  using py_split_first [OF assms(1), of "b @ 44 # c"] py_split_first [OF assms(2), of c]
    py_split_none [OF assms(3)]
  by simp

lemma number_text_no_sep: "number_text s \<Longrightarrow> 44 \<notin> set s \<and> 47 \<notin> set s \<and> s \<noteq> []"
  by (auto simp: number_text_def list_all_iff)

lemma entry_body:
  "butlast (entry_string fstr e)
     = str_num fstr (fst e) @ 44 # fstr (fst (snd e)) @ 44 # fstr (snd (snd e))"
  by (simp add: entry_string_def butlast_append)

lemma entry_string_body: "entry_string fstr e = butlast (entry_string fstr e) @ [47]"
  by (simp add: entry_string_def butlast_append)

lemma spectrum_loop_entries:
  assumes "list_all (entry_ok fstr fparse widen) k"
  shows "spectrum_loop fparse (map (\<lambda>e. butlast (entry_string fstr e)) k) acc
     = Inr (fst acc @ map (\<lambda>e. widened widen (fst e)) k,
            fst (snd acc) @ map (\<lambda>e. fst (snd e)) k,
            snd (snd acc) @ map (\<lambda>e. snd (snd e)) k)"
  using assms
proof (induction k arbitrary: acc)
  case Nil
  then show ?case by simp
next
  case (Cons e k)
  then have ok: "entry_ok fstr fparse widen e" by simp
  then have sp: "py_split 44 (butlast (entry_string fstr e))
     = [str_num fstr (fst e), fstr (fst (snd e)), fstr (snd (snd e))]"
    unfolding entry_body
    by (intro py_split_three) (simp_all add: entry_ok_def number_text_no_sep)
  show ?case
    using ok Cons by (simp add: sp py_float_def entry_ok_def del: py_split.simps)
qed

lemma kept_entries_nonempty:
  assumes "length os = length ms" "length os = length ps" "\<not> list_all isclose0 ms"
  shows "kept_entries os ms ps \<noteq> []"
proof -
  from assms(3) obtain i where i: "i < length ms" "\<not> isclose0 (ms ! i)"
    by (auto simp: list_all_iff in_set_conv_nth)
  then have "zip os (zip ms ps) ! i = (os ! i, ms ! i, ps ! i)" "i < length (zip os (zip ms ps))"
    using assms(1,2) by simp_all
  then have "(os ! i, ms ! i, ps ! i) \<in> set (zip os (zip ms ps))"
    by (metis nth_mem)
  with i(2) show ?thesis
    by (auto simp: kept_entries_def filter_empty_conv intro!: bexI [of _ "(os ! i, ms ! i, ps ! i)"])
qed

lemma kept_entries_subset:
  assumes "e \<in> set (kept_entries os ms ps)"
  shows "fst e \<in> set os" "fst (snd e) \<in> set ms" "snd (snd e) \<in> set ps"
proof -
  obtain a b c where e: "e = (a, b, c)" by (cases e) auto
  from assms have z: "(a, b, c) \<in> set (zip os (zip ms ps))" by (simp add: kept_entries_def e)
  then have "a \<in> set os" "(b, c) \<in> set (zip ms ps)"
    by (auto dest: set_zip_leftD set_zip_rightD)
  then show "fst e \<in> set os" "fst (snd e) \<in> set ms" "snd (snd e) \<in> set ps"
    by (auto simp: e dest: set_zip_leftD set_zip_rightD)
qed

lemmas spectrum_eval = spectrum_to_string_def kept_entries_def isclose0_def entry_string_def
  str_num_def str_int_def str_nat.simps string_to_spectrum_def py_endswith_def py_float_def
  fstr_excerpt_def repr_excerpt_def fparse_excerpt_def float_excerpt_def U_def Let_def

text \<open>
  Claim C8, as amended.  For three sequences of equal length in which at least one
  magnitude is not close to zero (\<open>np.isclose(m, 0)\<close> is false, that is \<open>|m| > 1e-8\<close>),
  and whose numbers are printed as number texts that \<open>float()\<close> reads back,
  \<open>string_to_spectrum(spectrum_to_string(orders, magnitudes, phases))\<close> is exactly the
  subsequence of the entries whose magnitude is not close to zero, in their original
  order, the orders as floats.
\<close>

theorem spectrum_roundtrip:
  assumes "length os = length ms" "length os = length ps"
    and "\<not> list_all isclose0 ms"
    and "\<forall>v\<in>set os. number_text (str_num fstr v) \<and> fparse (str_num fstr v) = Some (widened widen v)"
    and "\<forall>x\<in>set ms \<union> set ps. number_text (fstr x) \<and> fparse (fstr x) = Some x"
  shows "bind (spectrum_to_string fstr os ms ps) (string_to_spectrum fparse)
     = Inr (map (\<lambda>e. widened widen (fst e)) (kept_entries os ms ps),
            map (\<lambda>e. fst (snd e)) (kept_entries os ms ps),
            map (\<lambda>e. snd (snd e)) (kept_entries os ms ps))"
proof -
  let ?k = "kept_entries os ms ps"
  let ?bodies = "map (\<lambda>e. butlast (entry_string fstr e)) ?k"
  have ne: "?k \<noteq> []" using assms(1-3) by (rule kept_entries_nonempty)
  have ok: "list_all (entry_ok fstr fparse widen) ?k"
    unfolding list_all_iff entry_ok_def
    using assms(4,5) kept_entries_subset [of _ os ms ps] by blast
  have c: "concat (map (entry_string fstr) ?k) = concat (map (\<lambda>x. x @ [47]) ?bodies)"
    using entry_string_body [of fstr] by (simp add: comp_def)
  have b: "butlast (concat (map (\<lambda>x. x @ [47]) ?bodies)) = py_join [47] ?bodies"
    using ne by (intro butlast_concat_join) simp
  have cb: "butlast (concat (map (entry_string fstr) ?k)) = py_join [47] ?bodies"
    by (simp only: c b)
  have enc: "spectrum_to_string fstr os ms ps = Inr (py_join [47] ?bodies)"
    using ne assms(1,2)
    by (simp add: spectrum_to_string_def Let_def zip_unzip3 cb)
  have nosep: "list_all (\<lambda>s. 47 \<notin> set s) ?bodies"
    using ok by (auto simp: list_all_iff entry_body entry_ok_def number_text_no_sep)
  define p where "p = fstr (snd (snd (last ?k)))"
  have "entry_ok fstr fparse widen (last ?k)"
    using ok ne by (simp add: list_all_iff)
  then have p: "p \<noteq> []" "47 \<notin> set p"
    using number_text_no_sep [of p] by (simp_all add: entry_ok_def p_def)
  have "last ?bodies = butlast (entry_string fstr (last ?k))"
    using ne by (simp add: last_map)
  then have "last (last ?bodies) = last p" "last ?bodies \<noteq> []"
    using p(1) by (simp_all add: entry_body p_def)
  moreover have "last p \<in> set p" using p(1) by simp
  ultimately have lb: "last ?bodies \<noteq> []" "last (last ?bodies) \<noteq> 47"
    using p(2) by auto
  then have "last (py_join [47] ?bodies) \<noteq> 47"
    using ne by (simp add: py_join_last)
  then have "\<not> py_endswith (py_join [47] ?bodies) 47"
    by (simp add: py_endswith_def)
  moreover have "py_split 47 (py_join [47] ?bodies) = ?bodies"
    using ne nosep by (intro py_split_join) simp_all
  ultimately have "string_to_spectrum fparse (py_join [47] ?bodies)
     = spectrum_loop fparse ?bodies ([], [], [])"
    by (simp add: string_to_spectrum_def)
  then show ?thesis
    by (simp add: enc spectrum_loop_entries [OF ok])
qed

theorem spectrum_roundtrip_witness:
  "\<not> list_all isclose0 [0x406CC00000000000, 0x0000000000000000, 0x4014CCCCCCCCCCCD]
   \<and> spectrum_to_string fstr_excerpt [NInt 1, NInt 3, NInt 5]
        [0x406CC00000000000, 0x0000000000000000, 0x4014CCCCCCCCCCCD]
        [0x0000000000000000, 0x0000000000000000, 0x4066800000000000]
      = Inr (U ''1,230.0,0.0/5,5.2,180.0'')
   \<and> string_to_spectrum fparse_excerpt (U ''1,230.0,0.0/5,5.2,180.0'')
      = Inr ([0x3FF0000000000000, 0x4014000000000000],
             [0x406CC00000000000, 0x4014CCCCCCCCCCCD],
             [0x0000000000000000, 0x4066800000000000])"
proof -
  have k: "kept_entries [NInt 1, NInt 3, NInt 5]
        [0x406CC00000000000, 0x0000000000000000, 0x4014CCCCCCCCCCCD]
        [0x0000000000000000, 0x0000000000000000, 0x4066800000000000]
     = [(NInt 1, 0x406CC00000000000, 0x0000000000000000),
        (NInt 5, 0x4014CCCCCCCCCCCD, 0x4066800000000000)]"
    and n: "\<not> list_all isclose0 [0x406CC00000000000, 0x0000000000000000, 0x4014CCCCCCCCCCCD]"
    by (simp_all add: kept_entries_def isclose0_def)
  have e: "spectrum_to_string fstr_excerpt [NInt 1, NInt 3, NInt 5]
        [0x406CC00000000000, 0x0000000000000000, 0x4014CCCCCCCCCCCD]
        [0x0000000000000000, 0x0000000000000000, 0x4066800000000000]
      = Inr (U ''1,230.0,0.0/5,5.2,180.0'')"
    by (simp add: spectrum_eval)
  have o: "\<forall>v\<in>set [NInt 1, NInt 3, NInt 5].
      number_text (str_num fstr_excerpt v)
      \<and> fparse_excerpt (str_num fstr_excerpt v) = Some (widened widen_excerpt v)"
    by (simp add: str_num_def str_int_def str_nat.simps number_text_def widened_def
        widen_excerpt_def fparse_excerpt_def float_excerpt_def char_eval)
  have f: "\<forall>x\<in>set [0x406CC00000000000, 0x0000000000000000, 0x4014CCCCCCCCCCCD]
         \<union> set [0x0000000000000000, 0x0000000000000000, 0x4066800000000000].
      number_text (fstr_excerpt x) \<and> fparse_excerpt (fstr_excerpt x) = Some x"
    using excerpt_ok by simp
  show ?thesis
    using spectrum_roundtrip [OF _ _ n o f] n
    by (simp add: e k widened_def widen_excerpt_def)
qed

text \<open>
  Claim C8 as stated fails for a magnitude that is not zero but within \<open>1e-8\<close> of it.
  With the single magnitude \<open>1e-9\<close> the encoder raises (nothing survives the filter);
  with the magnitudes \<open>230.0\<close> and \<open>1e-9\<close> the round trip returns the first entry only,
  though both magnitudes are non-zero.
\<close>

theorem spectrum_roundtrip_small_magnitude:
  "\<not> is_zero 0x3E112E0BE826D695
   \<and> spectrum_to_string fstr_excerpt [NInt 1] [0x3E112E0BE826D695] [0x0000000000000000]
      = Inl (UnpackError 3 0)
   \<and> bind (spectrum_to_string fstr_excerpt [NInt 1, NInt 5]
            [0x406CC00000000000, 0x3E112E0BE826D695]
            [0x0000000000000000, 0x4066800000000000])
        (string_to_spectrum fparse_excerpt)
      = Inr ([0x3FF0000000000000], [0x406CC00000000000], [0x0000000000000000])"
  by (simp add: is_zero_def spectrum_eval)

end
